theory Spec2Isabelle
  imports Complex_Main
begin

section \<open>The remote balance ledger\<close>

text \<open>
  Python ints are modelled as \<open>int\<close> and \<open>None\<close> as \<open>None\<close>. The amounts and the
  rates are Python floats. They are modelled by a type \<open>'a\<close> of which only the
  operations of the code are used (addition, negation, multiplication, division, zero
  and the order) and no law of arithmetic: nothing that is proved depends on sums being
  exact, so it holds for the rounded operations of floating-point numbers too. The
  examples are evaluated on reals, at values where the floating-point operations are
  exact. The order is taken to be linear, which leaves not-a-number values out.
  Sleeping (\<open>api_delay\<close>, \<open>Retry-After\<close>) has no effect on the values computed and is
  not modelled.
\<close>

record 'a balance =
  cash :: 'a
  bank :: 'a
  total_amt :: 'a

text \<open>
  The HTTP requests the client sends: \<open>GET /guilds/g/users/u\<close> and
  \<open>PATCH /guilds/g/users/u\<close> with the JSON body \<open>{reason, cash?, bank?}\<close>.
\<close>

datatype 'a request =
  GET int int
| PATCH int int "'a option" "'a option" string

text \<open>The \<open>Retry-After\<close> header of a 429 response: missing, an integer, or not an integer.\<close>

datatype retry_after = Absent | Seconds int | Malformed

text \<open>What the remote side does with one request.\<close>

datatype outcome =
  Ok
| Throttle retry_after
| NotFound
| Forbidden
| OtherStatus int
| ClientError

text \<open>What the client sees: a status (with the parsed body of a 200), or an exception.\<close>

datatype 'a response =
  Status200 "'a balance"
| Status429 retry_after
| Status404
| Status403
| StatusOther int
| RaisedClientError

text \<open>
  \<open>session\<close>: whether \<open>cog_load\<close> has created the HTTP session;
  \<open>stack_room\<close>: how many nested calls of \<open>_make_request\<close> still fit under the
  recursion limit of the interpreter when a request is made;
  \<open>ledger\<close>: the remote balances \<open>(cash, bank)\<close> per (guild, user);
  \<open>script\<close>: the outcome the remote side gives to the n-th request sent;
  \<open>calls\<close>: the requests sent so far, oldest first.
\<close>

record 'a world =
  session :: bool
  stack_room :: nat
  ledger :: "int \<times> int \<Rightarrow> 'a \<times> 'a"
  script :: "nat \<Rightarrow> outcome"
  calls :: "'a request list"

definition snapshot :: "('a::plus) \<times> 'a \<Rightarrow> 'a balance" where
  "snapshot a = \<lparr>cash = fst a, bank = snd a, total_amt = fst a + snd a\<rparr>"

fun account_of :: "'a request \<Rightarrow> int \<times> int" where
  "account_of (GET g u) = (g, u)"
| "account_of (PATCH g u c b r) = (g, u)"

text \<open>
  Modelled from the spec: the remote ledger is an external service, absent from the
  repository. Section 6 gives its contract: \<open>GET\<close> returns the account's
  \<open>{cash, bank, total}\<close>; \<open>PATCH\<close> with \<open>{cash?, bank?, reason}\<close> stores the
  supplied wallets and returns the snapshot.
\<close>

fun serve :: "'a request \<Rightarrow> (int \<times> int \<Rightarrow> 'a \<times> 'a) \<Rightarrow> (int \<times> int \<Rightarrow> 'a \<times> 'a)" where
  "serve (GET g u) l = l"
| "serve (PATCH g u c b r) l =
     l((g, u) := (case c of None \<Rightarrow> fst (l (g, u)) | Some x \<Rightarrow> x,
                  case b of None \<Rightarrow> snd (l (g, u)) | Some y \<Rightarrow> y))"

text \<open>
  Modelled from the spec: one HTTP exchange with the remote ledger. The request is sent
  (and counted); the possible outcomes are those of section 6: success, throttled,
  not-found, forbidden, other-error, to which the failure of the connection is added.
  Only a successful request is served.
\<close>

definition http_exchange :: "('a::plus) world \<Rightarrow> 'a request \<Rightarrow> 'a response \<times> 'a world" where
  "http_exchange w req =
     (let w1 = w\<lparr>calls := calls w @ [req]\<rparr> in
      case script w (length (calls w)) of
        Ok \<Rightarrow>
          (let l = serve req (ledger w)
           in (Status200 (snapshot (l (account_of req))), w1\<lparr>ledger := l\<rparr>))
      | Throttle h \<Rightarrow> (Status429 h, w1)
      | NotFound \<Rightarrow> (Status404, w1)
      | Forbidden \<Rightarrow> (Status403, w1)
      | OtherStatus n \<Rightarrow> (StatusOther n, w1)
      | ClientError \<Rightarrow> (RaisedClientError, w1))"

section \<open>The ledger client (cogs/unbelievaboat.py)\<close>

text \<open>
  \<open>UnbelievaBoat._make_request\<close>, with the number \<open>room\<close> of nested calls that still
  fit under the recursion limit. The result is \<open>Some (None, w')\<close> when the call returns
  Python's \<open>None\<close>, and \<open>Some (Some data, w')\<close> when it returns the parsed body; \<open>None\<close>
  stands for a call that does not return, and that every call returns is proved below. \<open>int(...)\<close> of a malformed \<open>Retry-After\<close> raises
  \<open>ValueError\<close>, which the last \<open>except\<close> clause turns into \<open>None\<close>. The retry is a
  nested call inside \<open>try\<close>: when no room is left it raises \<open>RecursionError\<close>, which the
  same clause turns into \<open>None\<close>.
\<close>

partial_function (option) make_request_at ::
  "nat \<Rightarrow> ('a::plus) world \<Rightarrow> 'a request \<Rightarrow> ('a balance option \<times> 'a world) option" where
  "make_request_at room w req =
     (if \<not> session w then Some (None, w)
      else case http_exchange w req of
        (Status200 data, w') \<Rightarrow> Some (Some data, w')
      | (Status429 h, w') \<Rightarrow>
          (case h of
             Malformed \<Rightarrow> Some (None, w')
           | Absent \<Rightarrow>
               if room = 0 then Some (None, w') else make_request_at (room - 1) w' req
           | Seconds s \<Rightarrow>
               if room = 0 then Some (None, w') else make_request_at (room - 1) w' req)
      | (Status404, w') \<Rightarrow> Some (None, w')
      | (Status403, w') \<Rightarrow> Some (None, w')
      | (StatusOther n, w') \<Rightarrow> Some (None, w')
      | (RaisedClientError, w') \<Rightarrow> Some (None, w'))"

text \<open>A call of \<open>_make_request\<close> by the client, with the room that the world leaves.\<close>

definition make_request ::
  "('a::plus) world \<Rightarrow> 'a request \<Rightarrow> ('a balance option \<times> 'a world) option" where
  "make_request w req = make_request_at (stack_room w) w req"

text \<open>
  \<open>UnbelievaBoat.get_user_balance\<close>. The body of a 200 carries the three keys of the
  contract, so \<open>if data\<close> holds exactly when a body was returned.
\<close>

definition get_user_balance ::
  "('a::plus) world \<Rightarrow> int \<Rightarrow> int \<Rightarrow> ('a balance option \<times> 'a world) option" where
  "get_user_balance w guild user =
     (case make_request w (GET guild user) of
        None \<Rightarrow> None
      | Some (data, w') \<Rightarrow>
          (case data of
             Some d \<Rightarrow> Some (Some \<lparr>cash = cash d, bank = bank d, total_amt = total_amt d\<rparr>, w')
           | None \<Rightarrow> Some (None, w')))"

text \<open>\<open>UnbelievaBoat.set_user_balance\<close>.\<close>

definition set_user_balance ::
  "('a::plus) world \<Rightarrow> int \<Rightarrow> int \<Rightarrow> 'a option \<Rightarrow> 'a option \<Rightarrow> string
     \<Rightarrow> ('a balance option \<times> 'a world) option" where
  "set_user_balance w guild user cash' bank' reason =
     (case make_request w (PATCH guild user cash' bank' reason) of
        None \<Rightarrow> None
      | Some (data, w') \<Rightarrow>
          (case data of
             Some d \<Rightarrow> Some (Some \<lparr>cash = cash d, bank = bank d, total_amt = total_amt d\<rparr>, w')
           | None \<Rightarrow> Some (None, w')))"

text \<open>\<open>UnbelievaBoat.modify_user_balance\<close>.\<close>

definition modify_user_balance ::
  "('a::{plus,zero,linorder}) world \<Rightarrow> int \<Rightarrow> int \<Rightarrow> 'a option \<Rightarrow> 'a option \<Rightarrow> string
     \<Rightarrow> ('a balance option \<times> 'a world) option" where
  "modify_user_balance w guild user cash_change bank_change reason =
     (case get_user_balance w guild user of
        None \<Rightarrow> None
      | Some (None, w1) \<Rightarrow> Some (None, w1)
      | Some (Some current, w1) \<Rightarrow>
          (let new_cash = (case cash_change of None \<Rightarrow> cash current | Some d \<Rightarrow> cash current + d);
               new_bank = (case bank_change of None \<Rightarrow> bank current | Some d \<Rightarrow> bank current + d)
           in if new_cash < 0 \<or> new_bank < 0 then Some (None, w1)
              else set_user_balance w1 guild user (Some new_cash) (Some new_bank) reason))"

section \<open>The database (cogs/database.py)\<close>

text \<open>A row of the table \<open>economies\<close>; \<open>status\<close> is the text column of the source.\<close>

record 'a economy =
  guild_id :: int
  guild_name :: string
  currency_name :: string
  currency_symbol :: string
  rate_usd :: 'a
  status :: string
  application_note :: "string option"
  applied_by :: int
  applied_at :: string
  approved_at :: "string option"
  approved_by :: "int option"

text \<open>A row of the table \<open>transfers\<close> (the autoincremented \<open>id\<close> is left out).\<close>

record 'a transfer_row =
  tr_user_id :: int
  from_guild_id :: int
  to_guild_id :: int
  amount_source :: 'a
  amount_target :: 'a
  source_currency :: string
  target_currency :: string
  tr_wallet_type :: string
  tr_timestamp :: string
  exchange_rate :: 'a

text \<open>A row of the table \<open>audit_log\<close>.\<close>

record audit_row =
  action :: string
  au_user_id :: int
  au_guild_id :: "int option"
  details :: "string option"
  au_timestamp :: string

text \<open>
  \<open>db_ok\<close>: whether the statements of an operation run without raising (when they raise,
  the operation's \<open>except\<close> clause returns its failure value);
  \<open>utcnow\<close>: what \<open>datetime.utcnow().isoformat()\<close> returns;
  \<open>economies\<close>: the rows in the order \<open>ORDER BY applied_at DESC\<close> lists them;
  \<open>approved_officers\<close>: the \<open>user_id\<close> column of that table.
\<close>

record 'a database =
  db_ok :: bool
  utcnow :: string
  economies :: "'a economy list"
  transfers :: "'a transfer_row list"
  approved_officers :: "int set"
  audit_log :: "audit_row list"

text \<open>\<open>Database.get_all_economies\<close>; \<open>if status\<close> fails for \<open>None\<close> and for the empty string.\<close>

definition get_all_economies :: "'a database \<Rightarrow> string option \<Rightarrow> 'a economy list" where
  "get_all_economies db status' =
     (if \<not> db_ok db then []
      else case status' of
        None \<Rightarrow> economies db
      | Some s \<Rightarrow> if s = [] then economies db else filter (\<lambda>e. status e = s) (economies db))"

text \<open>
  \<open>Database.update_economy_status\<close>; \<open>and approved_by\<close> fails for \<open>None\<close> and for 0.
\<close>

definition update_economy_status ::
  "'a database \<Rightarrow> int \<Rightarrow> string \<Rightarrow> int option \<Rightarrow> bool \<times> 'a database" where
  "update_economy_status db gid status' approved_by' =
     (if \<not> db_ok db then (False, db)
      else if status' = ''approved'' \<and> approved_by' \<noteq> None \<and> approved_by' \<noteq> Some 0 then
        (True, db\<lparr>economies :=
           map (\<lambda>e. if guild_id e = gid
                     then e\<lparr>status := status', approved_at := Some (utcnow db),
                            approved_by := approved_by'\<rparr>
                     else e) (economies db)\<rparr>)
      else
        (True, db\<lparr>economies :=
           map (\<lambda>e. if guild_id e = gid then e\<lparr>status := status'\<rparr> else e) (economies db)\<rparr>))"

text \<open>\<open>Database.remove_economy\<close>.\<close>

definition remove_economy :: "'a database \<Rightarrow> int \<Rightarrow> bool \<times> 'a database" where
  "remove_economy db gid =
     (if \<not> db_ok db then (False, db)
      else (True, db\<lparr>economies := filter (\<lambda>e. guild_id e \<noteq> gid) (economies db)\<rparr>))"

text \<open>\<open>Database.log_transfer\<close>.\<close>

definition log_transfer ::
  "'a database \<Rightarrow> int \<Rightarrow> int \<Rightarrow> int \<Rightarrow> 'a \<Rightarrow> 'a \<Rightarrow> string \<Rightarrow> string \<Rightarrow> string \<Rightarrow> 'a
     \<Rightarrow> bool \<times> 'a database" where
  "log_transfer db user from_guild to_guild amt_source amt_target src_currency tgt_currency wallet rate =
     (if \<not> db_ok db then (False, db)
      else (True, db\<lparr>transfers := transfers db @
              [\<lparr>tr_user_id = user, from_guild_id = from_guild, to_guild_id = to_guild,
                amount_source = amt_source, amount_target = amt_target,
                source_currency = src_currency, target_currency = tgt_currency,
                tr_wallet_type = wallet, tr_timestamp = utcnow db, exchange_rate = rate\<rparr>]\<rparr>))"

text \<open>\<open>Database.log_action\<close>.\<close>

definition log_action ::
  "'a database \<Rightarrow> string \<Rightarrow> int \<Rightarrow> int option \<Rightarrow> string option \<Rightarrow> bool \<times> 'a database" where
  "log_action db act user guild det =
     (if \<not> db_ok db then (False, db)
      else (True, db\<lparr>audit_log := audit_log db @
              [\<lparr>action = act, au_user_id = user, au_guild_id = guild, details = det,
                au_timestamp = utcnow db\<rparr>]\<rparr>))"

text \<open>\<open>Database.is_officer\<close>.\<close>

definition is_officer :: "'a database \<Rightarrow> int \<Rightarrow> bool" where
  "is_officer db user = (if \<not> db_ok db then False else user \<in> approved_officers db)"

section \<open>The bot and its configuration (bot.py)\<close>

text \<open>
  The entries of \<open>bot.config\<close> that are read here, and whether \<open>bot.get_cog\<close> finds the
  \<open>Database\<close> and the \<open>UnbelievaBoat\<close> cog.
\<close>

record 'a bot =
  owner_user_id :: int
  min_transfer_amount :: 'a
  max_transfer_amount :: 'a
  db_loaded :: bool
  unb_loaded :: bool

section \<open>Authorization (cogs/admin.py, cogs/economy.py)\<close>

text \<open>\<open>AdminCommands.is_officer_or_owner\<close>.\<close>

definition is_officer_or_owner :: "'a bot \<Rightarrow> 'a database \<Rightarrow> int \<Rightarrow> bool" where
  "is_officer_or_owner b db user =
     (if user = owner_user_id b then True
      else if db_loaded b then is_officer db user
      else False)"

text \<open>Python's \<open>str.lower\<close>, on ASCII letters.\<close>

definition lower_char :: "char \<Rightarrow> char" where
  "lower_char c =
     (let n = (of_char c :: nat) in if 65 \<le> n \<and> n \<le> 90 then char_of (n + 32) else c)"

definition lower :: "string \<Rightarrow> string" where
  "lower s = map lower_char s"

datatype approval_reply =
  DatabaseNotAvailable
| NotAuthorized
| ApplicationApproved
| ApplicationRejected
| UpdateFailed

text \<open>\<open>ApprovalView.approve_button\<close>, pressed by \<open>user\<close> on the application of \<open>guild\<close>.\<close>

definition approve_button ::
  "'a bot \<Rightarrow> 'a database \<Rightarrow> int \<Rightarrow> int \<Rightarrow> approval_reply \<times> 'a database" where
  "approve_button b db guild user =
     (if \<not> db_loaded b then (DatabaseNotAvailable, db)
      else if \<not> is_officer db user then (NotAuthorized, db)
      else case update_economy_status db guild ''approved'' (Some user) of
        (success, db1) \<Rightarrow>
          if success
          then (ApplicationApproved, snd (log_action db1 ''economy_approved'' user (Some guild) None))
          else (UpdateFailed, db1))"

text \<open>\<open>ApprovalView.reject_button\<close>.\<close>

definition reject_button ::
  "'a bot \<Rightarrow> 'a database \<Rightarrow> int \<Rightarrow> int \<Rightarrow> approval_reply \<times> 'a database" where
  "reject_button b db guild user =
     (if \<not> db_loaded b then (DatabaseNotAvailable, db)
      else if \<not> is_officer db user then (NotAuthorized, db)
      else case update_economy_status db guild ''rejected'' None of
        (success, db1) \<Rightarrow>
          if success
          then (ApplicationRejected, snd (log_action db1 ''economy_rejected'' user (Some guild) None))
          else (UpdateFailed, db1))"

datatype kick_reply =
  KickNotAuthorized
| KickDatabaseNotAvailable
| KickNotFound
| Kicked
| KickFailed

text \<open>The search loop of \<open>kick_economy\<close>: the first row with that name, case ignored.\<close>

fun find_first :: "'a economy list \<Rightarrow> string \<Rightarrow> 'a economy option" where
  "find_first [] name = None"
| "find_first (e # es) name =
     (if lower (guild_name e) = lower name then Some e else find_first es name)"

text \<open>\<open>AdminCommands.kick_economy\<close>; the notification of the removed server is left out.\<close>

definition kick_economy ::
  "'a bot \<Rightarrow> 'a database \<Rightarrow> int \<Rightarrow> string \<Rightarrow> string \<Rightarrow> kick_reply \<times> 'a database" where
  "kick_economy b db user server_name reason =
     (if \<not> is_officer_or_owner b db user then (KickNotAuthorized, db)
      else if \<not> db_loaded b then (KickDatabaseNotAvailable, db)
      else case find_first (get_all_economies db (Some ''approved'')) server_name of
        None \<Rightarrow> (KickNotFound, db)
      | Some target_economy \<Rightarrow>
          (case remove_economy db (guild_id target_economy) of
             (success, db1) \<Rightarrow>
               if success
               then (Kicked, snd (log_action db1 ''economy_kicked'' user
                                    (Some (guild_id target_economy)) (Some (''Reason: '' @ reason))))
               else (KickFailed, db1)))"

section \<open>Transfers (cogs/unbelievaboat.py, cogs/transfer.py)\<close>

text \<open>\<open>UnbelievaBoat.user_has_sufficient_balance\<close>.\<close>

definition user_has_sufficient_balance ::
  "('a::{plus,zero,linorder}) world \<Rightarrow> int \<Rightarrow> int \<Rightarrow> 'a \<Rightarrow> string \<Rightarrow> (bool \<times> 'a world) option" where
  "user_has_sufficient_balance w guild user amount wallet =
     (case get_user_balance w guild user of
        None \<Rightarrow> None
      | Some (None, w') \<Rightarrow> Some (False, w')
      | Some (Some bal, w') \<Rightarrow>
          Some (if lower wallet = ''cash'' then cash bal \<ge> amount
                else if lower wallet = ''bank'' then bank bal \<ge> amount
                else False, w'))"

text \<open>The exceptions of Python that matter here.\<close>

datatype py_error = ZeroDivisionError | AttributeError

text \<open>
  Lines 125 to 128 of \<open>transfer\<close>: the amount in the target currency. Python's division
  of floats raises at a zero divisor.
\<close>

definition conversion :: "('a::{times,inverse,zero}) \<Rightarrow> 'a \<Rightarrow> 'a \<Rightarrow> py_error + 'a" where
  "conversion amount source_rate target_rate =
     (if source_rate = 0 then Inl ZeroDivisionError
      else (let amount_usd = amount / source_rate in Inr (amount_usd * target_rate)))"

text \<open>The fields of \<open>ConfirmTransferView\<close>.\<close>

record 'a view =
  v_user_id :: int
  source_economy :: "'a economy"
  target_economy :: "'a economy"
  v_amount :: 'a
  target_amount :: 'a
  v_wallet_type :: string

text \<open>
  The search loop of \<open>transfer\<close> over the approved economies: it has no \<open>break\<close>, so
  the last row with the name wins.
\<close>

fun find_economies ::
  "'a economy list \<Rightarrow> string \<Rightarrow> string \<Rightarrow> 'a economy option \<times> 'a economy option
     \<Rightarrow> 'a economy option \<times> 'a economy option" where
  "find_economies [] source_server target_server found = found"
| "find_economies (e # es) source_server target_server (src, tgt) =
     find_economies es source_server target_server
       (if lower (guild_name e) = lower source_server then Some e else src,
        if lower (guild_name e) = lower target_server then Some e else tgt)"

datatype 'a transfer_reply =
  ServicesNotAvailable
| InvalidWalletType
| AmountOutOfRange
| SourceNotFound
| TargetNotFound
| SameServer
| InsufficientBalance
| Uncaught py_error
| Confirmation "'a view"

text \<open>
  \<open>TransferCommands.transfer\<close>, called by \<open>user\<close>. The reply is the message sent, or the
  confirmation view with its buttons, or the exception that leaves the command.
\<close>

definition transfer ::
  "('a::{plus,uminus,times,inverse,zero,linorder}) bot \<Rightarrow> 'a database \<Rightarrow> 'a world \<Rightarrow> int
     \<Rightarrow> string \<Rightarrow> string \<Rightarrow> 'a \<Rightarrow> string \<Rightarrow> ('a transfer_reply \<times> 'a world) option" where
  "transfer b db w user target_server source_server amount wallet_type =
     (if \<not> db_loaded b \<or> \<not> unb_loaded b then Some (ServicesNotAvailable, w)
      else let wallet = lower wallet_type in
      if wallet \<noteq> ''cash'' \<and> wallet \<noteq> ''bank'' then Some (InvalidWalletType, w)
      else if amount < min_transfer_amount b \<or> amount > max_transfer_amount b
        then Some (AmountOutOfRange, w)
      else case find_economies (get_all_economies db (Some ''approved''))
                  source_server target_server (None, None) of
        (None, _) \<Rightarrow> Some (SourceNotFound, w)
      | (Some src, None) \<Rightarrow> Some (TargetNotFound, w)
      | (Some src, Some tgt) \<Rightarrow>
          if guild_id src = guild_id tgt then Some (SameServer, w)
          else case user_has_sufficient_balance w (guild_id src) user amount wallet of
            None \<Rightarrow> None
          | Some (has_balance, w') \<Rightarrow>
              if \<not> has_balance then Some (InsufficientBalance, w')
              else case conversion amount (rate_usd src) (rate_usd tgt) of
                Inl err \<Rightarrow> Some (Uncaught err, w')
              | Inr tgt_amount \<Rightarrow>
                  Some (Confirmation \<lparr>v_user_id = user, source_economy = src,
                          target_economy = tgt, v_amount = amount,
                          target_amount = tgt_amount, v_wallet_type = wallet\<rparr>, w'))"

datatype confirm_reply =
  NotYourTransfer
| InsufficientCancelled
| DebitFailed
| CreditFailedRolledBack
| TransferError
| TransferComplete
| ConfirmUncaught py_error

text \<open>The two keyword arguments of a \<open>modify_user_balance\<close> call on one wallet.\<close>

definition cash_change_of :: "string \<Rightarrow> 'a \<Rightarrow> 'a option" where
  "cash_change_of wallet x = (if wallet = ''cash'' then Some x else None)"

definition bank_change_of :: "string \<Rightarrow> 'a \<Rightarrow> 'a option" where
  "bank_change_of wallet x = (if wallet = ''cash'' then None else Some x)"

text \<open>
  The end of \<open>confirm\<close>, after both balances were modified: the exchange rate (a division,
  inside \<open>try\<close>), the two log entries, and the success message. A missing \<open>Database\<close>
  cog raises \<open>AttributeError\<close> at \<open>db.log_transfer\<close>; the \<open>except\<close> clause answers both
  exceptions with the error message.
\<close>

definition log_and_complete ::
  "('a::{inverse,zero}) bot \<Rightarrow> 'a database \<Rightarrow> 'a view \<Rightarrow> int \<Rightarrow> confirm_reply \<times> 'a database" where
  "log_and_complete b db v user =
     (if rate_usd (source_economy v) = 0 then (TransferError, db)
      else if \<not> db_loaded b then (TransferError, db)
      else
        (let rate = rate_usd (target_economy v) / rate_usd (source_economy v);
             db1 = snd (log_transfer db user (guild_id (source_economy v))
                          (guild_id (target_economy v)) (v_amount v) (target_amount v)
                          (currency_name (source_economy v)) (currency_name (target_economy v))
                          (v_wallet_type v) rate);
             db2 = snd (log_action db1 ''transfer'' user (Some (guild_id (source_economy v)))
                          (Some (''Transferred to '' @ guild_name (target_economy v))))
         in (TransferComplete, db2)))"

text \<open>
  \<open>ConfirmTransferView.confirm\<close>, pressed by \<open>user\<close>. A missing \<open>UnbelievaBoat\<close> cog
  raises \<open>AttributeError\<close> before the \<open>try\<close>. The text of the audit entry's details
  leaves the amount out.
\<close>

definition confirm ::
  "('a::{plus,uminus,times,inverse,zero,linorder}) bot \<Rightarrow> 'a view \<Rightarrow> int \<Rightarrow> 'a database \<Rightarrow> 'a world
     \<Rightarrow> (confirm_reply \<times> 'a database \<times> 'a world) option" where
  "confirm b v user db w =
     (if user \<noteq> v_user_id v then Some (NotYourTransfer, db, w)
      else if \<not> unb_loaded b then Some (ConfirmUncaught AttributeError, db, w)
      else case user_has_sufficient_balance w (guild_id (source_economy v)) user
                  (v_amount v) (v_wallet_type v) of
        None \<Rightarrow> None
      | Some (has_balance, w1) \<Rightarrow>
          if \<not> has_balance then Some (InsufficientCancelled, db, w1)
          else case modify_user_balance w1 (guild_id (source_economy v)) user
                      (cash_change_of (v_wallet_type v) (- v_amount v))
                      (bank_change_of (v_wallet_type v) (- v_amount v))
                      (''Transfer to '' @ guild_name (target_economy v)) of
            None \<Rightarrow> None
          | Some (source_result, w2) \<Rightarrow>
              if source_result = None then Some (DebitFailed, db, w2)
              else case modify_user_balance w2 (guild_id (target_economy v)) user
                          (cash_change_of (v_wallet_type v) (target_amount v))
                          (bank_change_of (v_wallet_type v) (target_amount v))
                          (''Transfer from '' @ guild_name (source_economy v)) of
                None \<Rightarrow> None
              | Some (target_result, w3) \<Rightarrow>
                  if target_result = None then
                    (case modify_user_balance w3 (guild_id (source_economy v)) user
                            (cash_change_of (v_wallet_type v) (v_amount v))
                            (bank_change_of (v_wallet_type v) (v_amount v))
                            ''Transfer rollback'' of
                       None \<Rightarrow> None
                     | Some (rollback_result, w4) \<Rightarrow> Some (CreditFailedRolledBack, db, w4))
                  else (case log_and_complete b db v user of
                          (reply, db') \<Rightarrow> Some (reply, db', w3)))"

section \<open>Notions used in the statements\<close>

text \<open>The outcomes after which \<open>_make_request\<close> calls itself again.\<close>

fun retries :: "outcome \<Rightarrow> bool" where
  "retries (Throttle Absent) = True"
| "retries (Throttle (Seconds s)) = True"
| "retries _ = False"

text \<open>The requests sent between two states of the world.\<close>

definition sent :: "'a world \<Rightarrow> 'a world \<Rightarrow> 'a request list" where
  "sent w w' = drop (length (calls w)) (calls w')"

text \<open>The replies with which \<open>transfer\<close> rejects a request before any ledger call.\<close>

definition rejected_at_validation :: "'a transfer_reply \<Rightarrow> bool" where
  "rejected_at_validation r \<longleftrightarrow>
     r = InvalidWalletType \<or> r = AmountOutOfRange \<or> r = SourceNotFound \<or>
     r = TargetNotFound \<or> r = SameServer"

text \<open>Adding an amount to the wallet that \<open>confirm\<close> selects: cash, or else bank.\<close>

definition wallet_add :: "string \<Rightarrow> ('a::plus) \<Rightarrow> 'a \<times> 'a \<Rightarrow> 'a \<times> 'a" where
  "wallet_add wallet x a = (if wallet = ''cash'' then (fst a + x, snd a) else (fst a, snd a + x))"

section \<open>Example inputs\<close>

text \<open>
  User 7 holds 100 in cash and 50 in the bank in guild 1, and nothing elsewhere; 980
  nested calls of \<open>_make_request\<close> fit under the recursion limit.
\<close>

definition example_ledger :: "int \<times> int \<Rightarrow> real \<times> real" where
  "example_ledger a = (if a = (1, 7) then (100, 50) else (0, 0))"

definition world_of :: "(nat \<Rightarrow> outcome) \<Rightarrow> real world" where
  "world_of sc =
     \<lparr>session = True, stack_room = 980, ledger = example_ledger, script = sc, calls = []\<rparr>"

definition all_ok :: "nat \<Rightarrow> outcome" where
  "all_ok n = Ok"

definition always_throttled :: "nat \<Rightarrow> outcome" where
  "always_throttled n = Throttle (Seconds 1)"

definition throttled_twice :: "nat \<Rightarrow> outcome" where
  "throttled_twice n = (if n < 2 then Throttle Absent else Ok)"

text \<open>A world that is always throttled and has room for two nested calls only.\<close>

definition short_stack :: "real world" where
  "short_stack = (world_of always_throttled)\<lparr>stack_room := 2\<rparr>"

text \<open>
  Two approved economies: Alpha (guild 1, 10 units per USD) and Beta (guild 2, 5 units per
  USD); and a pending application of Gamma (guild 3).
\<close>

definition economy_A :: "real economy" where
  "economy_A = \<lparr>guild_id = 1, guild_name = ''Alpha'', currency_name = ''alphas'',
     currency_symbol = ''A'', rate_usd = 10, status = ''approved'', application_note = None,
     applied_by = 11, applied_at = ''2024-01-01T00:00:00'',
     approved_at = Some ''2024-01-02T00:00:00'', approved_by = Some 42\<rparr>"

definition economy_B :: "real economy" where
  "economy_B = \<lparr>guild_id = 2, guild_name = ''Beta'', currency_name = ''betas'',
     currency_symbol = ''B'', rate_usd = 5, status = ''approved'', application_note = None,
     applied_by = 12, applied_at = ''2024-01-03T00:00:00'',
     approved_at = Some ''2024-01-04T00:00:00'', approved_by = Some 42\<rparr>"

definition economy_C :: "real economy" where
  "economy_C = \<lparr>guild_id = 3, guild_name = ''Gamma'', currency_name = ''gammas'',
     currency_symbol = ''C'', rate_usd = 2, status = ''pending'', application_note = None,
     applied_by = 13, applied_at = ''2024-01-05T00:00:00'',
     approved_at = None, approved_by = None\<rparr>"

text \<open>The database with these rows, newest application first, and the one officer 42.\<close>

definition example_db :: "real database" where
  "example_db = \<lparr>db_ok = True, utcnow = ''2024-02-01T00:00:00'',
     economies = [economy_C, economy_B, economy_A], transfers = [],
     approved_officers = {42}, audit_log = []\<rparr>"

text \<open>The bot of \<open>bot.py\<close> with owner 99 and both cogs loaded.\<close>

definition example_bot :: "real bot" where
  "example_bot = \<lparr>owner_user_id = 99, min_transfer_amount = 1,
     max_transfer_amount = 1000000, db_loaded = True, unb_loaded = True\<rparr>"

text \<open>The confirmation view of user 7 sending 100 cash units from Alpha to Beta.\<close>

definition view_AB :: "real view" where
  "view_AB = \<lparr>v_user_id = 7, source_economy = economy_A, target_economy = economy_B,
     v_amount = 100, target_amount = 50, v_wallet_type = ''cash''\<rparr>"

text \<open>
  Remote outcomes during a confirmed transfer. The requests are numbered from 0: the
  balance check (0), the read and the write of the debit (1, 2), the read of the credit
  (3), and so on.
\<close>

definition credit_read_fails :: "nat \<Rightarrow> outcome" where
  "credit_read_fails n = (if n = 3 then OtherStatus 503 else Ok)"

definition down_after_debit :: "nat \<Rightarrow> outcome" where
  "down_after_debit n = (if n < 3 then Ok else OtherStatus 503)"

definition rollback_write_forbidden :: "nat \<Rightarrow> outcome" where
  "rollback_write_forbidden n = (if n = 3 then NotFound else if n = 5 then Forbidden else Ok)"

section \<open>Facts about the ledger client\<close>

subsection \<open>One request\<close>

lemma make_request_at_no_session:
  "\<not> session w \<Longrightarrow> make_request_at k w req = Some (None, w)"
  by (subst make_request_at.simps) simp

lemma make_request_at_200:
  "session w \<Longrightarrow> script w (length (calls w)) = Ok \<Longrightarrow>
     make_request_at k w req =
       Some (Some (snapshot (serve req (ledger w) (account_of req))),
             w\<lparr>ledger := serve req (ledger w), calls := calls w @ [req]\<rparr>)"
  by (subst make_request_at.simps) (simp add: http_exchange_def Let_def)

lemma make_request_at_terminal:
  "session w \<Longrightarrow> \<not> retries (script w (length (calls w))) \<Longrightarrow>
   script w (length (calls w)) \<noteq> Ok \<Longrightarrow>
     make_request_at k w req = Some (None, w\<lparr>calls := calls w @ [req]\<rparr>)"
  by (subst make_request_at.simps)
     (auto simp: http_exchange_def Let_def split: outcome.splits retry_after.splits)

lemma make_request_at_exhausted:
  "session w \<Longrightarrow> retries (script w (length (calls w))) \<Longrightarrow>
     make_request_at 0 w req = Some (None, w\<lparr>calls := calls w @ [req]\<rparr>)"
  by (subst make_request_at.simps)
     (auto simp: http_exchange_def Let_def split: outcome.splits retry_after.splits)

lemma make_request_at_retry:
  "session w \<Longrightarrow> retries (script w (length (calls w))) \<Longrightarrow> k \<noteq> 0 \<Longrightarrow>
     make_request_at k w req = make_request_at (k - 1) (w\<lparr>calls := calls w @ [req]\<rparr>) req"
  by (subst make_request_at.simps)
     (auto simp: http_exchange_def Let_def split: outcome.splits retry_after.splits)

lemma make_request_at_effect:
  "\<exists>res w'. make_request_at k w req = Some (res, w')
     \<and> session w' = session w \<and> script w' = script w \<and> stack_room w' = stack_room w
     \<and> (res \<noteq> None \<longrightarrow> session w)
     \<and> (\<exists>n. calls w' = calls w @ replicate n req \<and> n \<le> Suc k \<and> (session w \<longrightarrow> 0 < n))
     \<and> (case res of
           None \<Rightarrow> ledger w' = ledger w
         | Some d \<Rightarrow> ledger w' = serve req (ledger w)
                    \<and> d = snapshot (serve req (ledger w) (account_of req)))"
proof (induction k arbitrary: w)
  case 0
  show ?case
  proof (cases "session w")
    case False
    then show ?thesis
      by (auto simp: make_request_at_no_session intro: exI[of _ 0])
  next
    case s: True
    consider "script w (length (calls w)) = Ok"
      | "retries (script w (length (calls w)))"
      | "\<not> retries (script w (length (calls w)))" "script w (length (calls w)) \<noteq> Ok"
      by auto
    then show ?thesis
    proof cases
      case 1
      with s show ?thesis
        by (auto simp: make_request_at_200 intro!: exI[of _ "Suc 0"])
    next
      case 2
      with s show ?thesis
        by (auto simp: make_request_at_exhausted intro!: exI[of _ "Suc 0"])
    next
      case 3
      with s show ?thesis
        by (auto simp: make_request_at_terminal intro!: exI[of _ "Suc 0"])
    qed
  qed
next
  case (Suc k)
  show ?case
  proof (cases "session w")
    case False
    then show ?thesis
      by (auto simp: make_request_at_no_session intro: exI[of _ 0])
  next
    case s: True
    consider "script w (length (calls w)) = Ok"
      | "retries (script w (length (calls w)))"
      | "\<not> retries (script w (length (calls w)))" "script w (length (calls w)) \<noteq> Ok"
      by auto
    then show ?thesis
    proof cases
      case 1
      with s show ?thesis
        by (auto simp: make_request_at_200 intro!: exI[of _ "Suc 0"])
    next
      case 2
      define w1 where "w1 = w\<lparr>calls := calls w @ [req]\<rparr>"
      have step: "make_request_at (Suc k) w req = make_request_at k w1 req"
        using make_request_at_retry[OF s 2, of "Suc k" req] by (simp add: w1_def)
      from Suc.IH[of w1] obtain res w' n where
        r: "make_request_at k w1 req = Some (res, w')"
        and f: "session w' = session w1" "script w' = script w1" "stack_room w' = stack_room w1"
        and c: "calls w' = calls w1 @ replicate n req" "n \<le> Suc k"
        and l: "case res of
           None \<Rightarrow> ledger w' = ledger w1
         | Some d \<Rightarrow> ledger w' = serve req (ledger w1)
                    \<and> d = snapshot (serve req (ledger w1) (account_of req))"
        by blast
      have l': "case res of
           None \<Rightarrow> ledger w' = ledger w
         | Some d \<Rightarrow> ledger w' = serve req (ledger w)
                    \<and> d = snapshot (serve req (ledger w) (account_of req))"
        using l by (simp add: w1_def split: option.splits)
      have "calls w' = calls w @ replicate (Suc n) req" "Suc n \<le> Suc (Suc k)"
        using c by (simp_all add: w1_def)
      then have "\<exists>m. calls w' = calls w @ replicate m req \<and> m \<le> Suc (Suc k) \<and> (session w \<longrightarrow> 0 < m)"
        by blast
      with step r f l' s show ?thesis
        by (simp add: w1_def)
    next
      case 3
      with s show ?thesis
        by (auto simp: make_request_at_terminal intro!: exI[of _ "Suc 0"])
    qed
  qed
qed

lemma make_request_at_throttled:
  "session w \<Longrightarrow> \<forall>n\<le>k. retries (script w (length (calls w) + n)) \<Longrightarrow>
     make_request_at k w req = Some (None, w\<lparr>calls := calls w @ replicate (Suc k) req\<rparr>)"
proof (induction k arbitrary: w)
  case 0
  then show ?case by (simp add: make_request_at_exhausted)
next
  case (Suc k)
  define w1 where "w1 = w\<lparr>calls := calls w @ [req]\<rparr>"
  from Suc.prems have r0: "retries (script w (length (calls w)))"
    by (metis add.right_neutral le0)
  have step: "make_request_at (Suc k) w req = make_request_at k w1 req"
    using make_request_at_retry[OF Suc.prems(1) r0, of "Suc k" req] by (simp add: w1_def)
  have "session w1" using Suc.prems(1) by (simp add: w1_def)
  moreover have "\<forall>n\<le>k. retries (script w1 (length (calls w1) + n))"
  proof (intro allI impI)
    fix n assume "n \<le> k"
    then have "Suc n \<le> Suc k" by simp
    with Suc.prems(2) have "retries (script w (length (calls w) + Suc n))" by blast
    then show "retries (script w1 (length (calls w1) + n))" by (simp add: w1_def)
  qed
  ultimately have "make_request_at k w1 req = Some (None, w1\<lparr>calls := calls w1 @ replicate (Suc k) req\<rparr>)"
    by (rule Suc.IH)
  with step show ?case by (simp add: w1_def replicate_app_Cons_same)
qed

lemma make_request_effect:
  assumes "make_request w req = Some r"
  shows "session (snd r) = session w \<and> script (snd r) = script w
       \<and> stack_room (snd r) = stack_room w
       \<and> (fst r \<noteq> None \<longrightarrow> session w)
       \<and> (\<exists>n. calls (snd r) = calls w @ replicate n req \<and> (session w \<longrightarrow> 0 < n))
       \<and> (case fst r of
             None \<Rightarrow> ledger (snd r) = ledger w
           | Some d \<Rightarrow> ledger (snd r) = serve req (ledger w)
                      \<and> d = snapshot (serve req (ledger w) (account_of req)))"
proof -
  from make_request_at_effect[of "stack_room w" w req] obtain res w' n where
    r: "make_request_at (stack_room w) w req = Some (res, w')"
    and f: "session w' = session w" "script w' = script w" "stack_room w' = stack_room w"
      "res \<noteq> None \<longrightarrow> session w"
    and c: "calls w' = calls w @ replicate n req" "session w \<longrightarrow> 0 < n"
    and l: "case res of
           None \<Rightarrow> ledger w' = ledger w
         | Some d \<Rightarrow> ledger w' = serve req (ledger w)
                    \<and> d = snapshot (serve req (ledger w) (account_of req))"
    by blast
  from r assms have "r = (res, w')" by (simp add: make_request_def)
  with f c l show ?thesis by (cases res) auto
qed

lemma make_request_returns: "\<exists>r. make_request w req = Some r"
  using make_request_at_effect[of "stack_room w" w req]
  unfolding make_request_def by blast

lemma make_request_no_session:
  "\<not> session w \<Longrightarrow> make_request w req = Some (None, w)"
  by (simp add: make_request_def make_request_at_no_session)

lemma make_request_200:
  "session w \<Longrightarrow> script w (length (calls w)) = Ok \<Longrightarrow>
     make_request w req =
       Some (Some (snapshot (serve req (ledger w) (account_of req))),
             w\<lparr>ledger := serve req (ledger w), calls := calls w @ [req]\<rparr>)"
  by (simp add: make_request_def make_request_at_200)

lemma make_request_terminal:
  "session w \<Longrightarrow> \<not> retries (script w (length (calls w))) \<Longrightarrow>
   script w (length (calls w)) \<noteq> Ok \<Longrightarrow>
     make_request w req = Some (None, w\<lparr>calls := calls w @ [req]\<rparr>)"
  by (simp add: make_request_def make_request_at_terminal)

lemma get_user_balance_effect:
  assumes "get_user_balance w g u = Some (rd, w1)"
  shows "session w1 = session w" "script w1 = script w" "ledger w1 = ledger w"
    "set (sent w w1) \<subseteq> {GET g u}"
    "rd = None \<or> rd = Some (snapshot (ledger w (g, u)))"
    "calls w1 = calls w @ sent w w1"
    "rd \<noteq> None \<Longrightarrow> session w"
proof -
  from assms obtain data where mr: "make_request w (GET g u) = Some (data, w1)"
    and rd: "rd = (case data of None \<Rightarrow> None
                   | Some d \<Rightarrow> Some \<lparr>cash = cash d, bank = bank d, total_amt = total_amt d\<rparr>)"
    by (auto simp: get_user_balance_def split: option.splits)
  note e = make_request_effect[OF mr]
  from e show "session w1 = session w" "script w1 = script w" by simp_all
  from e show "ledger w1 = ledger w" by (auto split: option.splits)
  from e show "set (sent w w1) \<subseteq> {GET g u}" by (auto simp: sent_def)
  from e rd show "rd = None \<or> rd = Some (snapshot (ledger w (g, u)))"
    by (auto split: option.splits simp: snapshot_def)
  from e show "calls w1 = calls w @ sent w w1" by (auto simp: sent_def)
  from e rd show "rd \<noteq> None \<Longrightarrow> session w" by (auto split: option.splits)
qed

lemma set_user_balance_effect:
  assumes "set_user_balance w g u (Some c) (Some b) reason = Some (res, w')"
  shows "session w' = session w" "script w' = script w"
    "set (sent w w') \<subseteq> {PATCH g u (Some c) (Some b) reason}"
    "res = None \<Longrightarrow> ledger w' = ledger w"
    "res \<noteq> None \<Longrightarrow> res = Some (snapshot (c, b)) \<and> ledger w' = (ledger w)((g, u) := (c, b))
        \<and> PATCH g u (Some c) (Some b) reason \<in> set (sent w w')"
    "calls w' = calls w @ sent w w'"
    "session w \<Longrightarrow> PATCH g u (Some c) (Some b) reason \<in> set (sent w w')"
proof -
  from assms obtain data where mr: "make_request w (PATCH g u (Some c) (Some b) reason) = Some (data, w')"
    and rd: "res = (case data of None \<Rightarrow> None
                   | Some d \<Rightarrow> Some \<lparr>cash = cash d, bank = bank d, total_amt = total_amt d\<rparr>)"
    by (auto simp: set_user_balance_def split: option.splits)
  note e = make_request_effect[OF mr]
  from e show "session w' = session w" "script w' = script w" by simp_all
  from e show "set (sent w w') \<subseteq> {PATCH g u (Some c) (Some b) reason}" by (auto simp: sent_def)
  from e rd show "res = None \<Longrightarrow> ledger w' = ledger w" by (auto split: option.splits)
  from e rd show "res \<noteq> None \<Longrightarrow> res = Some (snapshot (c, b)) \<and> ledger w' = (ledger w)((g, u) := (c, b))
        \<and> PATCH g u (Some c) (Some b) reason \<in> set (sent w w')"
    by (auto split: option.splits simp: snapshot_def sent_def)
  from e show "calls w' = calls w @ sent w w'" by (auto simp: sent_def)
  from e show "session w \<Longrightarrow> PATCH g u (Some c) (Some b) reason \<in> set (sent w w')"
    by (auto simp: sent_def)
qed

subsection \<open>Reading and writing a balance\<close>

lemma get_user_balance_200:
  "session w \<Longrightarrow> script w (length (calls w)) = Ok \<Longrightarrow>
     get_user_balance w g u =
       Some (Some (snapshot (ledger w (g, u))), w\<lparr>calls := calls w @ [GET g u]\<rparr>)"
  by (simp add: get_user_balance_def make_request_200 snapshot_def)

lemma get_user_balance_terminal:
  "session w \<Longrightarrow> \<not> retries (script w (length (calls w))) \<Longrightarrow>
   script w (length (calls w)) \<noteq> Ok \<Longrightarrow>
     get_user_balance w g u = Some (None, w\<lparr>calls := calls w @ [GET g u]\<rparr>)"
  by (simp add: get_user_balance_def make_request_terminal)

lemma set_user_balance_200:
  "session w \<Longrightarrow> script w (length (calls w)) = Ok \<Longrightarrow>
     set_user_balance w g u (Some c) (Some b) reason =
       Some (Some (snapshot (c, b)),
             w\<lparr>ledger := (ledger w)((g, u) := (c, b)),
               calls := calls w @ [PATCH g u (Some c) (Some b) reason]\<rparr>)"
  by (simp add: set_user_balance_def make_request_200 snapshot_def)

lemma set_user_balance_terminal:
  "session w \<Longrightarrow> \<not> retries (script w (length (calls w))) \<Longrightarrow>
   script w (length (calls w)) \<noteq> Ok \<Longrightarrow>
     set_user_balance w g u c b reason =
       Some (None, w\<lparr>calls := calls w @ [PATCH g u c b reason]\<rparr>)"
  by (simp add: set_user_balance_def make_request_terminal)

lemma modify_user_balance_unfold:
  assumes "get_user_balance w g u = Some (rd, w1)"
  shows "modify_user_balance w g u cd bd reason =
     (case rd of
        None \<Rightarrow> Some (None, w1)
      | Some current \<Rightarrow>
          (let new_cash = (case cd of None \<Rightarrow> cash current | Some d \<Rightarrow> cash current + d);
               new_bank = (case bd of None \<Rightarrow> bank current | Some d \<Rightarrow> bank current + d)
           in if new_cash < 0 \<or> new_bank < 0 then Some (None, w1)
              else set_user_balance w1 g u (Some new_cash) (Some new_bank) reason))"
  using assms by (simp add: modify_user_balance_def split: option.splits)

lemma modify_user_balance_effect:
  assumes "modify_user_balance w g u cd bd reason = Some (res, w')"
  shows "session w' = session w" "script w' = script w"
    "res = None \<Longrightarrow> ledger w' = ledger w"
    "res \<noteq> None \<Longrightarrow>
       ledger w' = (ledger w)((g, u) :=
          (case cd of None \<Rightarrow> fst (ledger w (g, u)) | Some d \<Rightarrow> fst (ledger w (g, u)) + d,
           case bd of None \<Rightarrow> snd (ledger w (g, u)) | Some d \<Rightarrow> snd (ledger w (g, u)) + d))"
proof -
  from assms obtain rd w1 where g: "get_user_balance w g u = Some (rd, w1)"
    by (auto simp: modify_user_balance_def split: option.splits)
  note ge = get_user_balance_effect[OF g]
  note m = assms[unfolded modify_user_balance_unfold[OF g]]
  show "session w' = session w" "script w' = script w"
    using m ge(1,2)
    by (auto simp: Let_def split: option.splits if_splits dest: set_user_balance_effect(1,2))
  show "res = None \<Longrightarrow> ledger w' = ledger w"
    using m ge(3)
    by (auto simp: Let_def split: option.splits if_splits dest: set_user_balance_effect(4))
  assume r: "res \<noteq> None"
  with m obtain cur where rd: "rd = Some cur" by (auto split: option.splits)
  with ge(5) have cur: "cur = snapshot (ledger w (g, u))" by simp
  define nc where "nc = (case cd of None \<Rightarrow> cash cur | Some d \<Rightarrow> cash cur + d)"
  define nb where "nb = (case bd of None \<Rightarrow> bank cur | Some d \<Rightarrow> bank cur + d)"
  from m rd r have s: "set_user_balance w1 g u (Some nc) (Some nb) reason = Some (res, w')"
    by (auto simp: Let_def nc_def nb_def split: if_splits)
  from set_user_balance_effect(5)[OF s r] ge(3)
  have "ledger w' = (ledger w)((g, u) := (nc, nb))" by simp
  moreover have "nc = (case cd of None \<Rightarrow> fst (ledger w (g, u)) | Some d \<Rightarrow> fst (ledger w (g, u)) + d)"
    "nb = (case bd of None \<Rightarrow> snd (ledger w (g, u)) | Some d \<Rightarrow> snd (ledger w (g, u)) + d)"
    by (simp_all add: nc_def nb_def cur snapshot_def split: option.splits)
  ultimately show "ledger w' = (ledger w)((g, u) :=
          (case cd of None \<Rightarrow> fst (ledger w (g, u)) | Some d \<Rightarrow> fst (ledger w (g, u)) + d,
           case bd of None \<Rightarrow> snd (ledger w (g, u)) | Some d \<Rightarrow> snd (ledger w (g, u)) + d))"
    by simp
qed

lemma sent_append:
  assumes "calls w1 = calls w @ sent w w1" "calls w2 = calls w1 @ sent w1 w2"
  shows "sent w w2 = sent w w1 @ sent w1 w2"
proof -
  have "calls w2 = calls w @ (sent w w1 @ sent w1 w2)"
    using assms by simp
  then show ?thesis
    by (simp add: sent_def[of w w2])
qed

lemma write_after_read:
  assumes rd: "get_user_balance w g u = Some (Some current, w1)"
    and wr: "set_user_balance w1 g u (Some nc) (Some nb) reason = Some (res, w')"
  shows "PATCH g u (Some nc) (Some nb) reason \<in> set (sent w w')"
    "res = Some snap \<Longrightarrow> snap = snapshot (nc, nb) \<and> ledger w' (g, u) = (nc, nb)"
proof -
  note ge = get_user_balance_effect[OF rd]
  note se = set_user_balance_effect[OF wr]
  from ge(1,7) have "session w1" by simp
  from se(7)[OF this] sent_append[OF ge(6) se(6)]
  show "PATCH g u (Some nc) (Some nb) reason \<in> set (sent w w')" by simp
  assume "res = Some snap"
  with se(5) show "snap = snapshot (nc, nb) \<and> ledger w' (g, u) = (nc, nb)" by simp
qed

section \<open>Facts about the transfer command\<close>

lemma find_economies_fst_None:
  "fst (find_economies es s t acc) = None \<longleftrightarrow>
     fst acc = None \<and> (\<forall>e\<in>set es. lower (guild_name e) \<noteq> lower s)"
  by (induction es s t acc rule: find_economies.induct) auto

lemma find_economies_snd_None:
  "snd (find_economies es s t acc) = None \<longleftrightarrow>
     snd acc = None \<and> (\<forall>e\<in>set es. lower (guild_name e) \<noteq> lower t)"
  by (induction es s t acc rule: find_economies.induct) auto

lemma find_economies_same_name:
  "lower s = lower t \<Longrightarrow> fst acc = snd acc \<Longrightarrow>
     fst (find_economies es s t acc) = snd (find_economies es s t acc)"
  by (induction es s t acc rule: find_economies.induct) auto

lemma set_get_all_economies_approved:
  "set (get_all_economies db (Some ''approved'')) =
     (if db_ok db then {e \<in> set (economies db). status e = ''approved''} else {})"
  by (auto simp: get_all_economies_def)

lemma lower_examples:
  "lower ''cash'' = ''cash''" "lower ''bank'' = ''bank''" "lower ''Cash'' = ''cash''"
  "lower ''Alpha'' = ''alpha''" "lower ''Beta'' = ''beta''" "lower ''Gamma'' = ''gamma''"
  "lower ''alpha'' = ''alpha''" "lower ''beta'' = ''beta''"
  by code_simp+

lemma approved_examples:
  "get_all_economies example_db (Some ''approved'') = [economy_B, economy_A]"
  by (simp add: get_all_economies_def example_db_def economy_A_def economy_B_def economy_C_def)

lemma found_examples:
  "find_economies [economy_B, economy_A] ''alpha'' ''beta'' (None, None) = (Some economy_A, Some economy_B)"
  "find_economies [economy_B, economy_A] ''Gamma'' ''beta'' (None, None) = (None, Some economy_B)"
  by (simp_all add: economy_A_def economy_B_def lower_examples)

section \<open>Facts about a confirmed transfer\<close>

lemma modify_one_wallet_effect:
  assumes "modify_user_balance w g u (cash_change_of wallet x) (bank_change_of wallet x) reason
             = Some (res, w')"
  shows "res = None \<Longrightarrow> ledger w' = ledger w"
    "res \<noteq> None \<Longrightarrow> ledger w' = (ledger w)((g, u) := wallet_add wallet x (ledger w (g, u)))"
proof -
  note e = modify_user_balance_effect[OF assms]
  from e(3) show "res = None \<Longrightarrow> ledger w' = ledger w" .
  assume "res \<noteq> None"
  from e(4)[OF this]
  show "ledger w' = (ledger w)((g, u) := wallet_add wallet x (ledger w (g, u)))"
    by (simp add: wallet_add_def cash_change_of_def bank_change_of_def)
qed

lemma user_has_sufficient_balance_effect:
  assumes "user_has_sufficient_balance w g u x wallet = Some (r, w')"
  shows "ledger w' = ledger w" "session w' = session w" "script w' = script w"
proof -
  from assms obtain rd where "get_user_balance w g u = Some (rd, w')"
    by (auto simp: user_has_sufficient_balance_def split: option.splits prod.splits)
  from get_user_balance_effect(1,2,3)[OF this]
  show "ledger w' = ledger w" "session w' = session w" "script w' = script w" by simp_all
qed

lemma transfer_Confirmation_D:
  assumes "transfer b db w user target_server source_server amount wallet_type
             = Some (Confirmation v, w')"
  shows "v_user_id v = user" "v_amount v = amount" "v_wallet_type v = lower wallet_type"
    "v_wallet_type v = ''cash'' \<or> v_wallet_type v = ''bank''"
    "guild_id (source_economy v) \<noteq> guild_id (target_economy v)"
    "rate_usd (source_economy v) \<noteq> 0"
    "target_amount v = amount / rate_usd (source_economy v) * rate_usd (target_economy v)"
  using assms
  by (auto simp: transfer_def Let_def conversion_def
           split: if_splits prod.splits option.splits sum.splits)

lemmas client_eval =
  get_user_balance_200 get_user_balance_terminal set_user_balance_200 set_user_balance_terminal
  modify_user_balance_def user_has_sufficient_balance_def snapshot_def Let_def
  cash_change_of_def bank_change_of_def lower_examples

lemmas example_defs =
  view_AB_def economy_A_def economy_B_def economy_C_def example_bot_def example_db_def
  world_of_def example_ledger_def

lemma found_Alpha_Beta:
  "find_economies (get_all_economies example_db (Some ''approved'')) ''Alpha'' ''Beta''
     (None, None) = (Some economy_A, Some economy_B)"
  by (simp add: approved_examples)
     (simp add: economy_A_def economy_B_def lower_examples)

section \<open>The claims\<close>

subsection \<open>C1: rollback after a failed credit\<close>

text \<open>
  C1, as amended. Let the user of the view press the button, let the balance check pass
  and the debit succeed, let the credit fail, and let the compensating
  \<open>modify_user_balance\<close> (the amount added back to the same wallet of the source account)
  return. Then \<open>confirm\<close> returns in the state that this compensating call left, its
  reply is not the completion, and the database is untouched, so no transfer is logged.
  When the compensating call has succeeded, the reply is the rolled-back one, and the
  remote ledger differs from the one before the transfer at most in the chosen wallet of
  the source account, which holds the old value minus the amount plus the amount, as
  the two calls computed it: the ledger is as before the transfer exactly when this sum
  gives the old value back, which floating-point addition does not always do.
\<close>

theorem rollback_restores_ledger:
  assumes user: "user = v_user_id v" and unb: "unb_loaded b"
    and chk: "user_has_sufficient_balance w (guild_id (source_economy v)) user
                (v_amount v) (v_wallet_type v) = Some (True, w1)"
    and debit: "modify_user_balance w1 (guild_id (source_economy v)) user
                  (cash_change_of (v_wallet_type v) (- v_amount v))
                  (bank_change_of (v_wallet_type v) (- v_amount v))
                  (''Transfer to '' @ guild_name (target_economy v)) = Some (Some debited, w2)"
    and credit: "modify_user_balance w2 (guild_id (target_economy v)) user
                  (cash_change_of (v_wallet_type v) (target_amount v))
                  (bank_change_of (v_wallet_type v) (target_amount v))
                  (''Transfer from '' @ guild_name (source_economy v)) = Some (None, w3)"
    and rollback: "modify_user_balance w3 (guild_id (source_economy v)) user
                  (cash_change_of (v_wallet_type v) (v_amount v))
                  (bank_change_of (v_wallet_type v) (v_amount v))
                  ''Transfer rollback'' = Some (rolled_back, w4)"
  shows "\<exists>reply. confirm b v user db w = Some (reply, db, w4) \<and> reply \<noteq> TransferComplete \<and>
           (rolled_back \<noteq> None \<longrightarrow>
              reply = CreditFailedRolledBack \<and>
              ledger w4 = (ledger w)((guild_id (source_economy v), user) :=
                 wallet_add (v_wallet_type v) (v_amount v)
                   (wallet_add (v_wallet_type v) (- v_amount v)
                      (ledger w (guild_id (source_economy v), user)))) \<and>
              (ledger w4 = ledger w \<longleftrightarrow>
                 wallet_add (v_wallet_type v) (v_amount v)
                   (wallet_add (v_wallet_type v) (- v_amount v)
                      (ledger w (guild_id (source_economy v), user)))
                 = ledger w (guild_id (source_economy v), user)))"
proof -
  let ?a = "(guild_id (source_economy v), user)"
  let ?restored = "wallet_add (v_wallet_type v) (v_amount v)
                 (wallet_add (v_wallet_type v) (- v_amount v) (ledger w ?a))"
  have c: "confirm b v user db w = Some (CreditFailedRolledBack, db, w4)"
    using user unb chk debit credit rollback by (simp add: confirm_def)
  have l: "ledger w4 = (ledger w)(?a := ?restored)" if r: "rolled_back \<noteq> None"
  proof -
    have l1: "ledger w1 = ledger w"
      by (rule user_has_sufficient_balance_effect(1)[OF chk])
    have l2: "ledger w2 = (ledger w1)(?a := wallet_add (v_wallet_type v) (- v_amount v) (ledger w1 ?a))"
      by (rule modify_one_wallet_effect(2)[OF debit]) simp
    have l3: "ledger w3 = ledger w2"
      by (rule modify_one_wallet_effect(1)[OF credit]) simp
    have l4: "ledger w4 = (ledger w3)(?a := wallet_add (v_wallet_type v) (v_amount v) (ledger w3 ?a))"
      by (rule modify_one_wallet_effect(2)[OF rollback r])
    show ?thesis
      unfolding l4 l3 l2 l1 by simp
  qed
  have "(ledger w)(?a := ?restored) = ledger w \<longleftrightarrow> ?restored = ledger w ?a"
    by (metis fun_upd_same fun_upd_triv)
  with c l show ?thesis by simp
qed

theorem rollback_restores_ledger_witness:
  "user_has_sufficient_balance (world_of credit_read_fails) 1 7 100 ''cash'' =
     Some (True, (world_of credit_read_fails)\<lparr>calls := [GET 1 7]\<rparr>) \<and>
   modify_user_balance ((world_of credit_read_fails)\<lparr>calls := [GET 1 7]\<rparr>) 1 7
       (Some (- 100)) None ''Transfer to Beta'' =
     Some (Some \<lparr>cash = 0, bank = 50, total_amt = 50\<rparr>,
       (world_of credit_read_fails)\<lparr>ledger := example_ledger((1, 7) := (0, 50)),
          calls := [GET 1 7, GET 1 7, PATCH 1 7 (Some 0) (Some 50) ''Transfer to Beta'']\<rparr>) \<and>
   modify_user_balance
       ((world_of credit_read_fails)\<lparr>ledger := example_ledger((1, 7) := (0, 50)),
          calls := [GET 1 7, GET 1 7, PATCH 1 7 (Some 0) (Some 50) ''Transfer to Beta'']\<rparr>)
       2 7 (Some 50) None ''Transfer from Alpha'' =
     Some (None,
       (world_of credit_read_fails)\<lparr>ledger := example_ledger((1, 7) := (0, 50)),
          calls := [GET 1 7, GET 1 7, PATCH 1 7 (Some 0) (Some 50) ''Transfer to Beta'',
                    GET 2 7]\<rparr>) \<and>
   confirm example_bot view_AB 7 example_db (world_of credit_read_fails) =
     Some (CreditFailedRolledBack, example_db,
       (world_of credit_read_fails)\<lparr>ledger := example_ledger((1, 7) := (100, 50)),
          calls := [GET 1 7, GET 1 7, PATCH 1 7 (Some 0) (Some 50) ''Transfer to Beta'',
                    GET 2 7, GET 1 7,
                    PATCH 1 7 (Some 100) (Some 50) ''Transfer rollback'']\<rparr>) \<and>
   wallet_add ''cash'' 100 (wallet_add ''cash'' (- 100) (example_ledger (1, 7))) = (100, 50)"
proof -
  let ?w = "world_of credit_read_fails"
  let ?w1 = "?w\<lparr>calls := [GET 1 7]\<rparr>"
  let ?w2 = "?w\<lparr>ledger := example_ledger((1, 7) := (0, 50)),
          calls := [GET 1 7, GET 1 7, PATCH 1 7 (Some 0) (Some 50) ''Transfer to Beta'']\<rparr>"
  let ?w3 = "?w\<lparr>ledger := example_ledger((1, 7) := (0, 50)),
          calls := [GET 1 7, GET 1 7, PATCH 1 7 (Some 0) (Some 50) ''Transfer to Beta'',
                    GET 2 7]\<rparr>"
  let ?w4 = "?w\<lparr>ledger := example_ledger((1, 7) := (100, 50)),
          calls := [GET 1 7, GET 1 7, PATCH 1 7 (Some 0) (Some 50) ''Transfer to Beta'',
                    GET 2 7, GET 1 7,
                    PATCH 1 7 (Some 100) (Some 50) ''Transfer rollback'']\<rparr>"
  have u: "7 = v_user_id view_AB" "unb_loaded example_bot"
    by (simp_all add: example_defs)
  have chk: "user_has_sufficient_balance ?w (guild_id (source_economy view_AB)) 7
                (v_amount view_AB) (v_wallet_type view_AB) = Some (True, ?w1)"
    by (simp add: client_eval example_defs credit_read_fails_def)
  have debit: "modify_user_balance ?w1 (guild_id (source_economy view_AB)) 7
                  (cash_change_of (v_wallet_type view_AB) (- v_amount view_AB))
                  (bank_change_of (v_wallet_type view_AB) (- v_amount view_AB))
                  (''Transfer to '' @ guild_name (target_economy view_AB))
               = Some (Some \<lparr>cash = 0, bank = 50, total_amt = 50\<rparr>, ?w2)"
    by (simp add: client_eval example_defs credit_read_fails_def)
  have credit: "modify_user_balance ?w2 (guild_id (target_economy view_AB)) 7
                  (cash_change_of (v_wallet_type view_AB) (target_amount view_AB))
                  (bank_change_of (v_wallet_type view_AB) (target_amount view_AB))
                  (''Transfer from '' @ guild_name (source_economy view_AB)) = Some (None, ?w3)"
    by (simp add: client_eval example_defs credit_read_fails_def)
  have rollback: "modify_user_balance ?w3 (guild_id (source_economy view_AB)) 7
                  (cash_change_of (v_wallet_type view_AB) (v_amount view_AB))
                  (bank_change_of (v_wallet_type view_AB) (v_amount view_AB))
                  ''Transfer rollback''
               = Some (Some \<lparr>cash = 100, bank = 50, total_amt = 150\<rparr>, ?w4)"
    by (simp add: client_eval example_defs credit_read_fails_def)
  from rollback_restores_ledger[OF u chk debit credit rollback, of example_db]
  have "confirm example_bot view_AB 7 example_db ?w = Some (CreditFailedRolledBack, example_db, ?w4)"
    by auto
  moreover have "wallet_add ''cash'' 100 (wallet_add ''cash'' (- 100) (example_ledger (1, 7)))
      = (100 :: real, 50 :: real)"
    by (simp add: wallet_add_def example_ledger_def)
  ultimately show ?thesis
    using chk debit credit
    by (simp add: view_AB_def economy_A_def economy_B_def cash_change_of_def bank_change_of_def)
qed

text \<open>
  C1 as stated fails: the remote side is down from the credit on, so the compensating
  call fails too, and the source account keeps 0 instead of its 100 in cash.
\<close>

theorem rollback_failure_counterexample:
  "confirm example_bot view_AB 7 example_db (world_of down_after_debit) =
     Some (CreditFailedRolledBack, example_db,
           (world_of down_after_debit)
             \<lparr>ledger := example_ledger((1, 7) := (0, 50)),
              calls := [GET 1 7, GET 1 7, PATCH 1 7 (Some 0) (Some 50) ''Transfer to Beta'',
                        GET 2 7, GET 1 7]\<rparr>) \<and>
   (example_ledger((1, 7) := (0, 50))) (1, 7) \<noteq> example_ledger (1, 7)"
  by (simp add: confirm_def client_eval view_AB_def economy_A_def economy_B_def
        example_bot_def world_of_def down_after_debit_def example_ledger_def)

subsection \<open>C2: retries on throttling\<close>

text \<open>
  C2. The code keeps no retry count of its own, but each retry on a 429 response is a
  nested call of \<open>_make_request\<close> inside \<open>try\<close>, so the number of retries is bounded by
  the nested calls that fit under the recursion limit of the interpreter. For every
  sequence of responses the request function returns, having sent the request at most
  once more than that number. When the session exists and all these requests are
  answered by a 429 (with the \<open>Retry-After\<close> header missing or an integer), the next
  nested call raises \<open>RecursionError\<close>, the \<open>except\<close> clause of the function catches it,
  and the function returns \<open>None\<close>, the value with which the client reports every
  error, instead of retrying further.
\<close>

theorem make_request_retry_bounded:
  "\<exists>res w'. make_request w req = Some (res, w') \<and>
      length (sent w w') \<le> Suc (stack_room w) \<and>
      (session w \<and> (\<forall>n\<le>stack_room w. retries (script w (length (calls w) + n))) \<longrightarrow>
         res = None \<and> sent w w' = replicate (Suc (stack_room w)) req)"
proof -
  from make_request_at_effect[of "stack_room w" w req] obtain res w' n where
    r: "make_request_at (stack_room w) w req = Some (res, w')"
    and c: "calls w' = calls w @ replicate n req" "n \<le> Suc (stack_room w)"
    by blast
  have len: "length (sent w w') \<le> Suc (stack_room w)"
    using c by (simp add: sent_def)
  have "res = None \<and> sent w w' = replicate (Suc (stack_room w)) req"
    if "session w" "\<forall>n\<le>stack_room w. retries (script w (length (calls w) + n))"
    using make_request_at_throttled[OF that, of req] r by (auto simp: sent_def)
  with r len show ?thesis
    by (auto simp: make_request_def)
qed

theorem make_request_retry_bounded_witness:
  "session short_stack \<and> stack_room short_stack = 2 \<and>
   retries (script short_stack 0) \<and> retries (script short_stack 1) \<and>
   retries (script short_stack 2) \<and>
   make_request short_stack (GET 1 7) =
     Some (None, short_stack\<lparr>calls := [GET 1 7, GET 1 7, GET 1 7]\<rparr>) \<and>
   make_request (world_of throttled_twice) (GET 1 7) =
     Some (Some \<lparr>cash = 100, bank = 50, total_amt = 150\<rparr>,
           (world_of throttled_twice)\<lparr>calls := [GET 1 7, GET 1 7, GET 1 7]\<rparr>)"
proof -
  have h: "session short_stack" "stack_room short_stack = 2"
    "\<forall>n\<le>stack_room short_stack. retries (script short_stack (length (calls short_stack) + n))"
    by (simp_all add: short_stack_def world_of_def always_throttled_def)
  from make_request_retry_bounded[of short_stack "GET 1 7"] h
  obtain w' where r: "make_request short_stack (GET 1 7) = Some (None, w')"
    and s: "sent short_stack w' = replicate (Suc (stack_room short_stack)) (GET 1 7)"
    by blast
  have e: "make_request short_stack (GET 1 7) =
     Some (None, short_stack\<lparr>calls := [GET 1 7, GET 1 7, GET 1 7]\<rparr>)"
    by (simp add: make_request_def make_request_at_retry make_request_at_exhausted
          short_stack_def world_of_def always_throttled_def)
  have t: "make_request (world_of throttled_twice) (GET 1 7) =
     Some (Some \<lparr>cash = 100, bank = 50, total_amt = 150\<rparr>,
           (world_of throttled_twice)\<lparr>calls := [GET 1 7, GET 1 7, GET 1 7]\<rparr>)"
    by (simp add: make_request_def make_request_at_retry make_request_at_200
          world_of_def throttled_twice_def example_ledger_def snapshot_def)
  from r e t h show ?thesis
    by (simp add: short_stack_def world_of_def always_throttled_def)
qed

subsection \<open>C3: a failed compensation\<close>

text \<open>
  C3 fails on the code. The credit fails (404 on its read) and the write of the
  compensating call is refused (403): \<open>modify_user_balance\<close> returns \<open>None\<close> for the
  rollback, yet \<open>confirm\<close> answers with the ordinary rolled-back reply, while the source
  account keeps 0 instead of its 100 in cash.
\<close>

theorem unchecked_rollback_reported_as_rolled_back:
  "modify_user_balance
     ((world_of rollback_write_forbidden)
        \<lparr>ledger := example_ledger((1, 7) := (0, 50)),
         calls := [GET 1 7, GET 1 7, PATCH 1 7 (Some 0) (Some 50) ''Transfer to Beta'',
                   GET 2 7]\<rparr>)
     1 7 (Some 100) None ''Transfer rollback'' =
     Some (None,
       (world_of rollback_write_forbidden)
        \<lparr>ledger := example_ledger((1, 7) := (0, 50)),
         calls := [GET 1 7, GET 1 7, PATCH 1 7 (Some 0) (Some 50) ''Transfer to Beta'',
                   GET 2 7, GET 1 7, PATCH 1 7 (Some 100) (Some 50) ''Transfer rollback'']\<rparr>) \<and>
   confirm example_bot view_AB 7 example_db (world_of rollback_write_forbidden) =
     Some (CreditFailedRolledBack, example_db,
       (world_of rollback_write_forbidden)
        \<lparr>ledger := example_ledger((1, 7) := (0, 50)),
         calls := [GET 1 7, GET 1 7, PATCH 1 7 (Some 0) (Some 50) ''Transfer to Beta'',
                   GET 2 7, GET 1 7, PATCH 1 7 (Some 100) (Some 50) ''Transfer rollback'']\<rparr>)"
  by (simp add: confirm_def client_eval view_AB_def economy_A_def economy_B_def
        example_bot_def world_of_def rollback_write_forbidden_def example_ledger_def)

subsection \<open>C4: the contract of \<open>modify_user_balance\<close>\<close>

text \<open>
  C4. \<open>modify_user_balance\<close> first reads the balance with \<open>get_user_balance\<close>, which
  sends only \<open>GET\<close> requests and leaves the ledger as it is. If the read does not
  return, neither does the call. If the read fails, the call returns \<open>None\<close> in the state
  the read left. Otherwise the balance read is the account's, each new wallet is the wallet
  read plus its change (the wallet read when no change is given); if one of them is
  negative the call returns \<open>None\<close> in the state the read left, with no \<open>PATCH\<close> sent;
  otherwise the call is \<open>set_user_balance\<close> with exactly these two values, and when that
  returns a snapshot, it is the snapshot of the two values, which are then the account's
  balance.
\<close>

theorem modify_user_balance_contract:
  "case get_user_balance w g u of
     None \<Rightarrow> modify_user_balance w g u cd bd reason = None
   | Some (rd, w1) \<Rightarrow>
       ledger w1 = ledger w \<and> set (sent w w1) \<subseteq> {GET g u} \<and>
       (case rd of
          None \<Rightarrow> modify_user_balance w g u cd bd reason = Some (None, w1)
        | Some current \<Rightarrow>
            current = snapshot (ledger w (g, u)) \<and>
            (let new_cash = (case cd of None \<Rightarrow> cash current | Some d \<Rightarrow> cash current + d);
                 new_bank = (case bd of None \<Rightarrow> bank current | Some d \<Rightarrow> bank current + d)
             in if new_cash < 0 \<or> new_bank < 0
                then modify_user_balance w g u cd bd reason = Some (None, w1)
                else modify_user_balance w g u cd bd reason =
                       set_user_balance w1 g u (Some new_cash) (Some new_bank) reason \<and>
                     (case set_user_balance w1 g u (Some new_cash) (Some new_bank) reason of
                        None \<Rightarrow> True
                      | Some (None, w2) \<Rightarrow> ledger w2 = ledger w
                      | Some (Some snap, w2) \<Rightarrow>
                          snap = snapshot (new_cash, new_bank) \<and>
                          ledger w2 = (ledger w)((g, u) := (new_cash, new_bank)) \<and>
                          PATCH g u (Some new_cash) (Some new_bank) reason \<in> set (sent w1 w2))))"
proof (cases "get_user_balance w g u")
  case None
  then show ?thesis by (simp add: modify_user_balance_def)
next
  case (Some p)
  obtain rd w1 where p: "p = (rd, w1)" by (cases p)
  with Some have g: "get_user_balance w g u = Some (rd, w1)" by simp
  note ge = get_user_balance_effect[OF g]
  note mu = modify_user_balance_unfold[OF g, of cd bd reason]
  show ?thesis
  proof (cases rd)
    case None
    with g ge mu show ?thesis by simp
  next
    case (Some current)
    with ge(5) have cur: "current = snapshot (ledger w (g, u))" by simp
    define nc where "nc = (case cd of None \<Rightarrow> cash current | Some d \<Rightarrow> cash current + d)"
    define nb where "nb = (case bd of None \<Rightarrow> bank current | Some d \<Rightarrow> bank current + d)"
    have setb: "case set_user_balance w1 g u (Some nc) (Some nb) reason of
                        None \<Rightarrow> True
                      | Some (None, w2) \<Rightarrow> ledger w2 = ledger w
                      | Some (Some snap, w2) \<Rightarrow>
                          snap = snapshot (nc, nb) \<and>
                          ledger w2 = (ledger w)((g, u) := (nc, nb)) \<and>
                          PATCH g u (Some nc) (Some nb) reason \<in> set (sent w1 w2)"
      using ge(3)
      by (auto split: option.splits dest: set_user_balance_effect(4,5))
    have m': "modify_user_balance w g u cd bd reason =
        (if nc < 0 \<or> nb < 0 then Some (None, w1)
         else set_user_balance w1 g u (Some nc) (Some nb) reason)"
      using mu Some by (simp add: Let_def nc_def nb_def)
    have main: "ledger w1 = ledger w \<and> set (sent w w1) \<subseteq> {GET g u} \<and>
       current = snapshot (ledger w (g, u)) \<and>
       (if nc < 0 \<or> nb < 0
        then modify_user_balance w g u cd bd reason = Some (None, w1)
        else modify_user_balance w g u cd bd reason =
               set_user_balance w1 g u (Some nc) (Some nb) reason \<and>
             (case set_user_balance w1 g u (Some nc) (Some nb) reason of
                None \<Rightarrow> True
              | Some (None, w2) \<Rightarrow> ledger w2 = ledger w
              | Some (Some snap, w2) \<Rightarrow>
                  snap = snapshot (nc, nb) \<and>
                  ledger w2 = (ledger w)((g, u) := (nc, nb)) \<and>
                  PATCH g u (Some nc) (Some nb) reason \<in> set (sent w1 w2)))"
      using ge(3,4) cur m' setb by (cases "nc < 0 \<or> nb < 0") simp_all
    show ?thesis
      unfolding g Some option.case prod.case Let_def nc_def[symmetric] nb_def[symmetric]
      by (rule main)
  qed
qed

theorem modify_user_balance_contract_witness:
  "get_user_balance (world_of all_ok) 1 7 =
     Some (Some \<lparr>cash = 100, bank = 50, total_amt = 150\<rparr>,
           (world_of all_ok)\<lparr>calls := [GET 1 7]\<rparr>) \<and>
   modify_user_balance (world_of all_ok) 1 7 (Some (- 30)) None ''fee'' =
     set_user_balance ((world_of all_ok)\<lparr>calls := [GET 1 7]\<rparr>) 1 7 (Some 70) (Some 50) ''fee'' \<and>
   modify_user_balance (world_of all_ok) 1 7 (Some (- 130)) None ''fee'' =
     Some (None, (world_of all_ok)\<lparr>calls := [GET 1 7]\<rparr>)"
proof -
  have g: "get_user_balance (world_of all_ok) 1 7 =
     Some (Some \<lparr>cash = 100, bank = 50, total_amt = 150\<rparr>,
           (world_of all_ok)\<lparr>calls := [GET 1 7]\<rparr>)"
    by (simp add: get_user_balance_200 world_of_def all_ok_def example_ledger_def snapshot_def)
  from modify_user_balance_contract[of "world_of all_ok" 1 7 "Some (- 30)" None "''fee''"]
       modify_user_balance_contract[of "world_of all_ok" 1 7 "Some (- 130)" None "''fee''"]
  show ?thesis
    by (simp add: g) (simp add: world_of_def example_ledger_def snapshot_def Let_def)
qed

subsection \<open>C5: rejection at validation\<close>

text \<open>
  C5. Let both cogs be loaded. When the wallet type is neither \<open>cash\<close> nor \<open>bank\<close> (case
  ignored), or the amount is below the configured minimum or above the maximum, or no
  approved economy has the source name, or none has the target name, or the two names are
  the same or lead to economies with one id, then \<open>transfer\<close> returns a rejection of the
  validation stage in the very state of the world it was called in: no request was sent
  and the remote ledger is as before.
\<close>

theorem validation_rejection_sends_nothing:
  assumes cogs: "db_loaded b" "unb_loaded b"
    and bad:
     "(lower wallet_type \<noteq> ''cash'' \<and> lower wallet_type \<noteq> ''bank'')
      \<or> amount < min_transfer_amount b \<or> amount > max_transfer_amount b
      \<or> (\<forall>e\<in>set (economies db). db_ok db \<and> status e = ''approved''
               \<longrightarrow> lower (guild_name e) \<noteq> lower source_server)
      \<or> (\<forall>e\<in>set (economies db). db_ok db \<and> status e = ''approved''
               \<longrightarrow> lower (guild_name e) \<noteq> lower target_server)
      \<or> (\<exists>src tgt. find_economies (get_all_economies db (Some ''approved''))
                       source_server target_server (None, None) = (Some src, Some tgt)
                     \<and> guild_id src = guild_id tgt)
      \<or> lower source_server = lower target_server"
  shows "\<exists>reply. transfer b db w user target_server source_server amount wallet_type
                   = Some (reply, w) \<and> rejected_at_validation reply"
proof -
  define found where "found = find_economies (get_all_economies db (Some ''approved''))
                       source_server target_server (None, None)"
  have src_missing: "fst found = None" if "\<forall>e\<in>set (economies db). db_ok db \<and> status e = ''approved''
               \<longrightarrow> lower (guild_name e) \<noteq> lower source_server"
    using that unfolding found_def find_economies_fst_None
    by (auto simp: set_get_all_economies_approved split: if_splits)
  have tgt_missing: "snd found = None" if "\<forall>e\<in>set (economies db). db_ok db \<and> status e = ''approved''
               \<longrightarrow> lower (guild_name e) \<noteq> lower target_server"
    using that unfolding found_def find_economies_snd_None
    by (auto simp: set_get_all_economies_approved split: if_splits)
  have same: "fst found = snd found" if "lower source_server = lower target_server"
    unfolding found_def by (rule find_economies_same_name[OF that]) simp
  have "fst found = None \<or> snd found = None
        \<or> (\<exists>src tgt. found = (Some src, Some tgt) \<and> guild_id src = guild_id tgt)
        \<or> (lower wallet_type \<noteq> ''cash'' \<and> lower wallet_type \<noteq> ''bank'')
        \<or> amount < min_transfer_amount b \<or> amount > max_transfer_amount b"
    using bad src_missing tgt_missing same
    by (cases found; cases "fst found"; cases "snd found") (auto simp: found_def[symmetric])
  then show ?thesis
    using cogs
    by (cases found; cases "fst found"; cases "snd found")
       (auto simp: transfer_def Let_def found_def[symmetric] rejected_at_validation_def)
qed

theorem validation_rejection_sends_nothing_witness:
  "db_loaded example_bot \<and> unb_loaded example_bot \<and>
   (1 / 2 :: real) < min_transfer_amount example_bot \<and>
   transfer example_bot example_db (world_of all_ok) 7 ''beta'' ''alpha'' (1 / 2) ''Cash''
     = Some (AmountOutOfRange, world_of all_ok) \<and>
   calls (world_of all_ok) = []"
proof -
  have h: "db_loaded example_bot" "unb_loaded example_bot"
    "(1 / 2 :: real) < min_transfer_amount example_bot"
    by (simp_all add: example_bot_def)
  from validation_rejection_sends_nothing[OF h(1,2), of "''Cash''" "1 / 2" example_db
         "''alpha''" "''beta''" "world_of all_ok" 7] h(3)
  obtain reply where
    "transfer example_bot example_db (world_of all_ok) 7 ''beta'' ''alpha'' (1 / 2) ''Cash''
       = Some (reply, world_of all_ok)" by blast
  moreover have "fst (the (transfer example_bot example_db (world_of all_ok) 7 ''beta'' ''alpha'' (1 / 2) ''Cash''))
     = AmountOutOfRange"
    by (simp add: transfer_def Let_def lower_examples example_bot_def)
  ultimately show ?thesis using h by (simp add: world_of_def)
qed

subsection \<open>C6: the amounts of a completed transfer\<close>

text \<open>
  C6. Let \<open>transfer\<close> answer a request for the amount \<open>x\<close> with the confirmation view
  \<open>v\<close>, and let \<open>confirm\<close> on \<open>v\<close> complete. Then the target amount of the view is
  \<open>x / rS * rT\<close> for the rates \<open>rS\<close> and \<open>rT\<close> of the source and the target economy;
  on the remote ledger the chosen wallet of the target account has grown by that amount
  and the wallet of the source account has shrunk by \<open>x\<close>; and when the database
  statements run, one row is appended to the transfers, with these two amounts and the
  exchange rate \<open>rT / rS\<close>.
\<close>

theorem completed_transfer_amounts:
  assumes t: "transfer b db0 w0 user target_server source_server x wallet_type
                = Some (Confirmation v, w0')"
    and c: "confirm b v user db w = Some (TransferComplete, db', w')"
  shows "target_amount v = x / rate_usd (source_economy v) * rate_usd (target_economy v) \<and>
     ledger w' (guild_id (target_economy v), user) =
       wallet_add (v_wallet_type v)
         (x / rate_usd (source_economy v) * rate_usd (target_economy v))
         (ledger w (guild_id (target_economy v), user)) \<and>
     ledger w' (guild_id (source_economy v), user) =
       wallet_add (v_wallet_type v) (- x) (ledger w (guild_id (source_economy v), user)) \<and>
     (db_ok db \<longrightarrow>
        transfers db' = transfers db @
          [\<lparr>tr_user_id = user, from_guild_id = guild_id (source_economy v),
            to_guild_id = guild_id (target_economy v), amount_source = x,
            amount_target = x / rate_usd (source_economy v) * rate_usd (target_economy v),
            source_currency = currency_name (source_economy v),
            target_currency = currency_name (target_economy v),
            tr_wallet_type = v_wallet_type v, tr_timestamp = utcnow db,
            exchange_rate = rate_usd (target_economy v) / rate_usd (source_economy v)\<rparr>])"
proof -
  note v = transfer_Confirmation_D[OF t]
  let ?s = "(guild_id (source_economy v), user)" and ?t = "(guild_id (target_economy v), user)"
  from c obtain w1 w2 sr tr where
    chk: "user_has_sufficient_balance w (guild_id (source_economy v)) user
                (v_amount v) (v_wallet_type v) = Some (True, w1)"
    and debit: "modify_user_balance w1 (guild_id (source_economy v)) user
                  (cash_change_of (v_wallet_type v) (- v_amount v))
                  (bank_change_of (v_wallet_type v) (- v_amount v))
                  (''Transfer to '' @ guild_name (target_economy v)) = Some (Some sr, w2)"
    and credit: "modify_user_balance w2 (guild_id (target_economy v)) user
                  (cash_change_of (v_wallet_type v) (target_amount v))
                  (bank_change_of (v_wallet_type v) (target_amount v))
                  (''Transfer from '' @ guild_name (source_economy v)) = Some (Some tr, w')"
    and logged: "log_and_complete b db v user = (TransferComplete, db')"
    by (auto simp: confirm_def split: if_splits option.splits prod.splits)
  have l1: "ledger w1 = ledger w"
    by (rule user_has_sufficient_balance_effect(1)[OF chk])
  have l2: "ledger w2 = (ledger w1)(?s := wallet_add (v_wallet_type v) (- v_amount v) (ledger w1 ?s))"
    by (rule modify_one_wallet_effect(2)[OF debit]) simp
  have l3: "ledger w' = (ledger w2)(?t := wallet_add (v_wallet_type v) (target_amount v) (ledger w2 ?t))"
    by (rule modify_one_wallet_effect(2)[OF credit]) simp
  have tgt: "ledger w' ?t = wallet_add (v_wallet_type v) (target_amount v) (ledger w ?t)"
    unfolding l3 l2 l1 using v(5) by simp
  have src: "ledger w' ?s = wallet_add (v_wallet_type v) (- v_amount v) (ledger w ?s)"
    unfolding l3 l2 l1 using v(5) by simp
  have rec: "transfers db' = transfers db @
          [\<lparr>tr_user_id = user, from_guild_id = guild_id (source_economy v),
            to_guild_id = guild_id (target_economy v), amount_source = v_amount v,
            amount_target = target_amount v,
            source_currency = currency_name (source_economy v),
            target_currency = currency_name (target_economy v),
            tr_wallet_type = v_wallet_type v, tr_timestamp = utcnow db,
            exchange_rate = rate_usd (target_economy v) / rate_usd (source_economy v)\<rparr>]"
    if "db_ok db"
    using logged that
    by (auto simp: log_and_complete_def log_transfer_def log_action_def Let_def split: if_splits)
  show ?thesis
    using tgt src rec v(2,7) by simp
qed

theorem completed_transfer_amounts_witness:
  "transfer example_bot example_db (world_of all_ok) 7 ''Beta'' ''Alpha'' 100 ''cash'' =
     Some (Confirmation view_AB, (world_of all_ok)\<lparr>calls := [GET 1 7]\<rparr>) \<and>
   confirm example_bot view_AB 7 example_db ((world_of all_ok)\<lparr>calls := [GET 1 7]\<rparr>) =
     Some (TransferComplete,
       example_db\<lparr>transfers :=
           [\<lparr>tr_user_id = 7, from_guild_id = 1, to_guild_id = 2, amount_source = 100,
             amount_target = 50, source_currency = ''alphas'', target_currency = ''betas'',
             tr_wallet_type = ''cash'', tr_timestamp = ''2024-02-01T00:00:00'',
             exchange_rate = 1 / 2\<rparr>],
          audit_log :=
           [\<lparr>action = ''transfer'', au_user_id = 7, au_guild_id = Some 1,
             details = Some ''Transferred to Beta'',
             au_timestamp = ''2024-02-01T00:00:00''\<rparr>]\<rparr>,
       (world_of all_ok)\<lparr>ledger := example_ledger((1, 7) := (0, 50), (2, 7) := (50, 0)),
          calls := [GET 1 7, GET 1 7, GET 1 7,
                    PATCH 1 7 (Some 0) (Some 50) ''Transfer to Beta'',
                    GET 2 7, PATCH 2 7 (Some 50) (Some 0) ''Transfer from Alpha'']\<rparr>) \<and>
   target_amount view_AB = 100 / 10 * 5 \<and>
   wallet_add ''cash'' 50 (example_ledger (2, 7)) = (50, 0) \<and>
   wallet_add ''cash'' (- 100) (example_ledger (1, 7)) = (0, 50)"
proof -
  let ?w1 = "(world_of all_ok)\<lparr>calls := [GET 1 7]\<rparr>"
  let ?db' = "example_db\<lparr>transfers :=
           [\<lparr>tr_user_id = 7, from_guild_id = 1, to_guild_id = 2, amount_source = 100,
             amount_target = 50, source_currency = ''alphas'', target_currency = ''betas'',
             tr_wallet_type = ''cash'', tr_timestamp = ''2024-02-01T00:00:00'',
             exchange_rate = 1 / 2\<rparr>],
          audit_log :=
           [\<lparr>action = ''transfer'', au_user_id = 7, au_guild_id = Some 1,
             details = Some ''Transferred to Beta'',
             au_timestamp = ''2024-02-01T00:00:00''\<rparr>]\<rparr>"
  let ?w' = "(world_of all_ok)\<lparr>ledger := example_ledger((1, 7) := (0, 50), (2, 7) := (50, 0)),
          calls := [GET 1 7, GET 1 7, GET 1 7,
                    PATCH 1 7 (Some 0) (Some 50) ''Transfer to Beta'',
                    GET 2 7, PATCH 2 7 (Some 50) (Some 0) ''Transfer from Alpha'']\<rparr>"
  have f: "user_has_sufficient_balance (world_of all_ok) 1 7 100 ''cash'' = Some (True, ?w1)"
    by (simp add: client_eval example_defs all_ok_def)
  have t: "transfer example_bot example_db (world_of all_ok) 7 ''Beta'' ''Alpha'' 100 ''cash''
      = Some (Confirmation view_AB, ?w1)"
    by (simp add: transfer_def Let_def lower_examples found_Alpha_Beta)
       (simp add: example_bot_def economy_A_def economy_B_def f conversion_def view_AB_def)
  have c: "confirm example_bot view_AB 7 example_db ?w1 = Some (TransferComplete, ?db', ?w')"
    by (simp add: confirm_def client_eval example_defs all_ok_def log_and_complete_def
          log_transfer_def log_action_def)
  from completed_transfer_amounts[OF t c]
  show ?thesis using t c
    by (simp add: view_AB_def economy_A_def economy_B_def example_ledger_def wallet_add_def)
qed

subsection \<open>C7: status transitions\<close>

text \<open>
  C7, as amended. \<open>update_economy_status\<close> does not look at the current status. Whenever
  the statements of the database run, it reports success, and every row keeps its id; the
  rows with the given id get the new status, whatever their status was, and the other rows
  stay as they are. In particular a second approval succeeds as the first did, and the
  status is \<open>approved\<close> after both.
\<close>

theorem update_economy_status_unguarded:
  assumes "db_ok db"
  shows "fst (update_economy_status db gid st officer) \<and>
     db_ok (snd (update_economy_status db gid st officer)) \<and>
     list_all2 (\<lambda>e e'. guild_id e' = guild_id e \<and>
                  (if guild_id e = gid then status e' = st else e' = e))
       (economies db) (economies (snd (update_economy_status db gid st officer))) \<and>
     fst (update_economy_status (snd (update_economy_status db gid ''approved'' officer)) gid
            ''approved'' officer') \<and>
     list_all2 (\<lambda>e e'. guild_id e' = guild_id e \<and>
                  (if guild_id e = gid then status e' = ''approved'' else e' = e))
       (economies db)
       (economies (snd (update_economy_status
                         (snd (update_economy_status db gid ''approved'' officer)) gid
                         ''approved'' officer')))"
  using assms
  by (auto simp: update_economy_status_def list_all2_map2 list_all2_map1 o_def 
           intro!: list_all2_refl list.rel_refl)

theorem update_economy_status_unguarded_witness:
  "db_ok example_db \<and>
   update_economy_status example_db 1 ''approved'' (Some 42) =
     (True, example_db\<lparr>economies := [economy_C, economy_B,
        economy_A\<lparr>approved_at := Some ''2024-02-01T00:00:00''\<rparr>]\<rparr>) \<and>
   fst (update_economy_status (snd (update_economy_status example_db 1 ''approved'' (Some 42)))
          1 ''approved'' (Some 42))"
proof -
  have ok: "db_ok example_db" by (simp add: example_db_def)
  from update_economy_status_unguarded[OF ok, of 1 "''approved''" "Some 42" "Some 42"]
  show ?thesis
    by (simp add: ok)
       (simp add: update_economy_status_def example_db_def economy_A_def economy_B_def economy_C_def)
qed

text \<open>
  C7 as stated fails: the approved economy Alpha is set to \<open>rejected\<close>, and the call
  reports success.
\<close>

theorem status_change_from_approved_counterexample:
  "status economy_A = ''approved'' \<and>
   update_economy_status example_db 1 ''rejected'' None =
     (True, example_db\<lparr>economies := [economy_C, economy_B, economy_A\<lparr>status := ''rejected''\<rparr>]\<rparr>)"
  by (simp add: update_economy_status_def example_db_def economy_A_def economy_B_def economy_C_def)

subsection \<open>C8: the source rate in the conversion\<close>

text \<open>
  C8, as amended. The conversion has no guard on the source rate. For a request that
  passes the validation and the balance check, \<open>transfer\<close> leaves with
  \<open>ZeroDivisionError\<close> when the source rate is 0, and for every other source rate,
  the negative ones included, it offers the confirmation with the target amount
  \<open>amount / rS * rT\<close>.
\<close>

theorem conversion_has_no_rate_guard:
  assumes cogs: "db_loaded b" "unb_loaded b"
    and wallet: "lower wallet_type = ''cash'' \<or> lower wallet_type = ''bank''"
    and range: "min_transfer_amount b \<le> amount" "amount \<le> max_transfer_amount b"
    and found: "find_economies (get_all_economies db (Some ''approved''))
                  source_server target_server (None, None) = (Some src, Some tgt)"
    and differ: "guild_id src \<noteq> guild_id tgt"
    and funds: "user_has_sufficient_balance w (guild_id src) user amount (lower wallet_type)
                  = Some (True, w')"
  shows "transfer b db w user target_server source_server amount wallet_type =
           Some (if rate_usd src = 0 then Uncaught ZeroDivisionError
                 else Confirmation \<lparr>v_user_id = user, source_economy = src,
                        target_economy = tgt, v_amount = amount,
                        target_amount = amount / rate_usd src * rate_usd tgt,
                        v_wallet_type = lower wallet_type\<rparr>, w')"
  using assms by (auto simp: transfer_def Let_def conversion_def)

theorem conversion_has_no_rate_guard_witness:
  "db_loaded example_bot \<and> unb_loaded example_bot \<and> lower ''Bank'' = ''bank'' \<and>
   min_transfer_amount example_bot \<le> 20 \<and> 20 \<le> max_transfer_amount example_bot \<and>
   guild_id economy_A \<noteq> guild_id economy_B \<and> rate_usd economy_A \<noteq> 0 \<and>
   user_has_sufficient_balance (world_of all_ok) (guild_id economy_A) 7 20 (lower ''Bank'') =
     Some (True, (world_of all_ok)\<lparr>calls := [GET 1 7]\<rparr>) \<and>
   transfer example_bot example_db (world_of all_ok) 7 ''Beta'' ''Alpha'' 20 ''Bank'' =
     Some (Confirmation \<lparr>v_user_id = 7, source_economy = economy_A,
             target_economy = economy_B, v_amount = 20, target_amount = 10,
             v_wallet_type = ''bank''\<rparr>,
           (world_of all_ok)\<lparr>calls := [GET 1 7]\<rparr>)"
proof -
  have lw: "lower ''Bank'' = ''bank''" by code_simp
  have h: "db_loaded example_bot" "unb_loaded example_bot"
    "lower ''Bank'' = ''cash'' \<or> lower ''Bank'' = ''bank''"
    "min_transfer_amount example_bot \<le> 20" "20 \<le> max_transfer_amount example_bot"
    by (simp_all add: example_bot_def lw)
  have d: "guild_id economy_A \<noteq> guild_id economy_B" "rate_usd economy_A \<noteq> 0"
    "rate_usd economy_A = 10" "rate_usd economy_B = 5"
    by (simp_all add: economy_A_def economy_B_def)
  have f: "user_has_sufficient_balance (world_of all_ok) (guild_id economy_A) 7 20 (lower ''Bank'')
      = Some (True, (world_of all_ok)\<lparr>calls := [GET 1 7]\<rparr>)"
    by (simp add: lw) (simp add: client_eval example_defs all_ok_def)
  from conversion_has_no_rate_guard[OF h found_Alpha_Beta d(1) f]
  show ?thesis using h d f by (simp add: lw)
qed

text \<open>
  C8 as stated fails: with the source rate \<open>- 4\<close> the conversion computes
  \<open>100 / (- 4) * 5\<close>.
\<close>

theorem negative_rate_counterexample:
  "conversion (100 :: real) (- 4) 5 = Inr (- 125)"
  by (simp add: conversion_def)

subsection \<open>C9: who may approve, reject and remove\<close>

text \<open>
  The check of \<open>kick_economy\<close> (removal) holds for the owner and for the officers.
\<close>

lemma is_officer_or_owner_iff:
  "is_officer_or_owner b db user \<longleftrightarrow>
     user = owner_user_id b \<or> (db_loaded b \<and> db_ok db \<and> user \<in> approved_officers db)"
  by (simp add: is_officer_or_owner_def is_officer_def)

lemma kick_economy_authorized_iff:
  "fst (kick_economy b db user server_name reason) \<noteq> KickNotAuthorized \<longleftrightarrow>
     user = owner_user_id b \<or> (db_loaded b \<and> db_ok db \<and> user \<in> approved_officers db)"
  by (auto simp: kick_economy_def is_officer_or_owner_def is_officer_def
           split: option.splits prod.splits)

text \<open>
  C9 fails for approval and rejection: \<open>approve_button\<close> and \<open>reject_button\<close> ask
  \<open>is_officer\<close> only. The owner 99, who is not in the officer set \<open>{42}\<close>, passes the check
  of \<open>kick_economy\<close> and is refused by both buttons.
\<close>

theorem owner_not_authorized_to_approve:
  "99 = owner_user_id example_bot \<and> 99 \<notin> approved_officers example_db \<and>
   is_officer_or_owner example_bot example_db 99 \<and>
   approve_button example_bot example_db 3 99 = (NotAuthorized, example_db) \<and>
   reject_button example_bot example_db 3 99 = (NotAuthorized, example_db)"
  by (simp add: is_officer_or_owner_def approve_button_def reject_button_def is_officer_def
        example_bot_def example_db_def)

subsection \<open>C10: a call with one change\<close>

text \<open>
  C10. Let the read of \<open>modify_user_balance\<close> succeed with the balance \<open>current\<close>. When
  only a cash change is given and neither new wallet is negative, the call is
  \<open>set_user_balance\<close> with the new cash and with the bank value just read; whenever it
  returns, the \<open>PATCH\<close> carrying that bank value was sent, and in a snapshot returned the
  bank wallet, as on the ledger, is the value read. The same holds for the cash wallet
  when only a bank change is given.
\<close>

theorem single_delta_keeps_other_wallet:
  assumes rd: "get_user_balance w g u = Some (Some current, w1)"
  shows "(0 \<le> cash current + d \<and> 0 \<le> bank current \<longrightarrow>
            modify_user_balance w g u (Some d) None reason =
              set_user_balance w1 g u (Some (cash current + d)) (Some (bank current)) reason
          \<and> (\<forall>res w'. modify_user_balance w g u (Some d) None reason = Some (res, w') \<longrightarrow>
                PATCH g u (Some (cash current + d)) (Some (bank current)) reason \<in> set (sent w w')
              \<and> (\<forall>snap. res = Some snap \<longrightarrow>
                    bank snap = bank current \<and> snd (ledger w' (g, u)) = bank current)))
       \<and> (0 \<le> cash current \<and> 0 \<le> bank current + d \<longrightarrow>
            modify_user_balance w g u None (Some d) reason =
              set_user_balance w1 g u (Some (cash current)) (Some (bank current + d)) reason
          \<and> (\<forall>res w'. modify_user_balance w g u None (Some d) reason = Some (res, w') \<longrightarrow>
                PATCH g u (Some (cash current)) (Some (bank current + d)) reason \<in> set (sent w w')
              \<and> (\<forall>snap. res = Some snap \<longrightarrow>
                    cash snap = cash current \<and> fst (ledger w' (g, u)) = cash current)))"
proof (intro conjI impI allI)
  assume pos: "0 \<le> cash current + d \<and> 0 \<le> bank current"
  then show m: "modify_user_balance w g u (Some d) None reason =
      set_user_balance w1 g u (Some (cash current + d)) (Some (bank current)) reason"
    by (simp add: modify_user_balance_unfold[OF rd] Let_def not_less[symmetric])
  fix res w'
  assume "modify_user_balance w g u (Some d) None reason = Some (res, w')"
  with m have s: "set_user_balance w1 g u (Some (cash current + d)) (Some (bank current)) reason
      = Some (res, w')" by simp
  from write_after_read(1)[OF rd s]
  show "PATCH g u (Some (cash current + d)) (Some (bank current)) reason \<in> set (sent w w')" .
  fix snap
  assume "res = Some snap"
  from write_after_read(2)[OF rd s this]
  show "bank snap = bank current" "snd (ledger w' (g, u)) = bank current"
    by (simp_all add: snapshot_def)
next
  assume pos: "0 \<le> cash current \<and> 0 \<le> bank current + d"
  then show m: "modify_user_balance w g u None (Some d) reason =
      set_user_balance w1 g u (Some (cash current)) (Some (bank current + d)) reason"
    by (simp add: modify_user_balance_unfold[OF rd] Let_def not_less[symmetric])
  fix res w'
  assume "modify_user_balance w g u None (Some d) reason = Some (res, w')"
  with m have s: "set_user_balance w1 g u (Some (cash current)) (Some (bank current + d)) reason
      = Some (res, w')" by simp
  from write_after_read(1)[OF rd s]
  show "PATCH g u (Some (cash current)) (Some (bank current + d)) reason \<in> set (sent w w')" .
  fix snap
  assume "res = Some snap"
  from write_after_read(2)[OF rd s this]
  show "cash snap = cash current" "fst (ledger w' (g, u)) = cash current"
    by (simp_all add: snapshot_def)
qed

theorem single_delta_keeps_other_wallet_witness:
  "get_user_balance (world_of all_ok) 1 7 =
     Some (Some \<lparr>cash = 100, bank = 50, total_amt = 150\<rparr>,
           (world_of all_ok)\<lparr>calls := [GET 1 7]\<rparr>) \<and>
   modify_user_balance (world_of all_ok) 1 7 (Some (- 30)) None ''fee'' =
     Some (Some \<lparr>cash = 70, bank = 50, total_amt = 120\<rparr>,
           (world_of all_ok)\<lparr>ledger := example_ledger((1, 7) := (70, 50)),
              calls := [GET 1 7, PATCH 1 7 (Some 70) (Some 50) ''fee'']\<rparr>) \<and>
   PATCH 1 7 (Some 70) (Some 50) ''fee'' \<in>
     set (sent (world_of all_ok)
           ((world_of all_ok)\<lparr>ledger := example_ledger((1, 7) := (70, 50)),
              calls := [GET 1 7, PATCH 1 7 (Some 70) (Some 50) ''fee'']\<rparr>))"
proof -
  have g: "get_user_balance (world_of all_ok) 1 7 =
     Some (Some \<lparr>cash = 100, bank = 50, total_amt = 150\<rparr>,
           (world_of all_ok)\<lparr>calls := [GET 1 7]\<rparr>)"
    by (simp add: get_user_balance_200 world_of_def all_ok_def example_ledger_def snapshot_def)
  have s: "set_user_balance ((world_of all_ok)\<lparr>calls := [GET 1 7]\<rparr>) 1 7 (Some 70) (Some 50) ''fee'' =
     Some (Some \<lparr>cash = 70, bank = 50, total_amt = 120\<rparr>,
           (world_of all_ok)\<lparr>ledger := example_ledger((1, 7) := (70, 50)),
              calls := [GET 1 7, PATCH 1 7 (Some 70) (Some 50) ''fee'']\<rparr>)"
    by (simp add: set_user_balance_200 world_of_def all_ok_def snapshot_def)
  from single_delta_keeps_other_wallet[OF g, of "- 30" "''fee''"] g s
  show ?thesis by simp
qed

end
